theory Spec2Isabelle
  imports Complex_Main
begin

section \<open>Python strings\<close>

text \<open>
  A Python \<open>str\<close> is modelled as a \<open>string\<close>, one \<open>char\<close> per code point. The
  character classes and the case mappings follow Python on the ASCII range; a
  code point from 128 on is treated as unclassified and is left alone by
  \<open>lower\<close> and \<open>upper\<close>.
\<close>

definition isspace :: "char \<Rightarrow> bool" where
  "isspace c = (let n = (of_char c :: nat) in (9 \<le> n \<and> n \<le> 13) \<or> (28 \<le> n \<and> n \<le> 32))"

definition isalpha_char :: "char \<Rightarrow> bool" where
  "isalpha_char c = (let n = (of_char c :: nat) in (65 \<le> n \<and> n \<le> 90) \<or> (97 \<le> n \<and> n \<le> 122))"

definition isdigit_char :: "char \<Rightarrow> bool" where
  "isdigit_char c = (let n = (of_char c :: nat) in 48 \<le> n \<and> n \<le> 57)"

text \<open>\<open>s.isalpha()\<close> and \<open>s.isdigit()\<close>: false on the empty string.\<close>

definition isalpha :: "string \<Rightarrow> bool" where
  "isalpha s = (s \<noteq> [] \<and> list_all isalpha_char s)"

definition isdigit :: "string \<Rightarrow> bool" where
  "isdigit s = (s \<noteq> [] \<and> list_all isdigit_char s)"

definition lower_char :: "char \<Rightarrow> char" where
  "lower_char c = (let n = (of_char c :: nat) in if 65 \<le> n \<and> n \<le> 90 then char_of (n + 32) else c)"

definition upper_char :: "char \<Rightarrow> char" where
  "upper_char c = (let n = (of_char c :: nat) in if 97 \<le> n \<and> n \<le> 122 then char_of (n - 32) else c)"

definition lower :: "string \<Rightarrow> string" where
  "lower s = map lower_char s"

definition upper :: "string \<Rightarrow> string" where
  "upper s = map upper_char s"

text \<open>\<open>s.strip()\<close>: leading and trailing whitespace removed.\<close>

definition strip :: "string \<Rightarrow> string" where
  "strip s = rev (dropWhile isspace (rev (dropWhile isspace s)))"

text \<open>\<open>s.replace(c, r)\<close> for a one-character pattern.\<close>

definition replace_char :: "char \<Rightarrow> string \<Rightarrow> string \<Rightarrow> string" where
  "replace_char c r s = concat (map (\<lambda>x. if x = c then r else [x]) s)"

text \<open>
  \<open>int(s)\<close> on a string, as CPython 3.11 reads it; \<open>None\<close> is \<open>ValueError\<close>.

  The string is first brought to ASCII: a code point below 127 is kept, a
  whitespace code point from 127 on (in this range U+0085 and U+00A0) becomes a
  space, and any other code point from 127 on becomes \<open>?\<close>, which no number
  contains (no decimal digit lies between 127 and 255).

  The number is then read as C does: whitespace of the C locale (9 to 13 and the
  space, so not 28 to 31), an optional sign, decimal digits with single
  underscores between digits, whitespace of the C locale, and the end of the
  string. More than 4300 digits are refused.
\<close>

definition c_isspace :: "char \<Rightarrow> bool" where
  "c_isspace c = (let n = (of_char c :: nat) in (9 \<le> n \<and> n \<le> 13) \<or> n = 32)"

definition space_to_ascii :: "char \<Rightarrow> char" where
  "space_to_ascii c =
     (let n = (of_char c :: nat)
      in if n < 127 then c else if n = 133 \<or> n = 160 then CHR '' '' else CHR ''?'')"

fun int_literal_ok :: "string \<Rightarrow> bool" where
  "int_literal_ok [] = False"
| "int_literal_ok [c] = isdigit_char c"
| "int_literal_ok (c # d # cs) =
     (isdigit_char c \<and> (if d = CHR ''_'' then int_literal_ok cs else int_literal_ok (d # cs)))"

definition int_literal_val :: "string \<Rightarrow> int" where
  "int_literal_val s =
     foldl (\<lambda>acc c. if c = CHR ''_'' then acc else 10 * acc + (int (of_char c) - 48)) 0 s"

definition max_str_digits :: nat where
  "max_str_digits = 4300"

definition unsigned_int :: "string \<Rightarrow> int option" where
  "unsigned_int s =
     (let in_number = (\<lambda>c. isdigit_char c \<or> c = CHR ''_'');
          number = takeWhile in_number s;
          rest = dropWhile in_number s
      in if int_literal_ok number \<and> length (filter isdigit_char number) \<le> max_str_digits
            \<and> dropWhile c_isspace rest = []
         then Some (int_literal_val number) else None)"

definition py_int :: "string \<Rightarrow> int option" where
  "py_int s =
     (case dropWhile c_isspace (map space_to_ascii s) of
        [] \<Rightarrow> None
      | c # r \<Rightarrow>
          if c = CHR ''-'' then map_option uminus (unsigned_int r)
          else if c = CHR ''+'' then unsigned_int r
          else unsigned_int (c # r))"

section \<open>Input validation helpers\<close>

subsection \<open>Regular expressions, as far as \<open>validate_email\<close> needs them\<close>

datatype re = Null | Eps | Cls "char \<Rightarrow> bool" | Seq re re | Alt re re | Star re

fun nullable :: "re \<Rightarrow> bool" where
  "nullable Null = False"
| "nullable Eps = True"
| "nullable (Cls p) = False"
| "nullable (Seq r s) = (nullable r \<and> nullable s)"
| "nullable (Alt r s) = (nullable r \<or> nullable s)"
| "nullable (Star r) = True"

fun deriv :: "char \<Rightarrow> re \<Rightarrow> re" where
  "deriv c Null = Null"
| "deriv c Eps = Null"
| "deriv c (Cls p) = (if p c then Eps else Null)"
| "deriv c (Seq r s) =
     (if nullable r then Alt (Seq (deriv c r) s) (deriv c s) else Seq (deriv c r) s)"
| "deriv c (Alt r s) = Alt (deriv c r) (deriv c s)"
| "deriv c (Star r) = Seq (deriv c r) (Star r)"

fun full_match :: "re \<Rightarrow> string \<Rightarrow> bool" where
  "full_match r [] = nullable r"
| "full_match r (c # cs) = full_match (deriv c r) cs"

text \<open>
  \<open>re.match(r'^...$', s)\<close>: the whole string matches, or the string without one
  final newline does (\<open>$\<close> also matches just before a newline at the end).
\<close>

definition re_match_anchored :: "re \<Rightarrow> string \<Rightarrow> bool" where
  "re_match_anchored r s =
     (full_match r s \<or> (s \<noteq> [] \<and> last s = CHR 0x0A \<and> full_match r (butlast s)))"

definition email_local_char :: "char \<Rightarrow> bool" where
  "email_local_char c = (isalpha_char c \<or> isdigit_char c \<or> c \<in> set ''._%+-'')"

definition email_domain_char :: "char \<Rightarrow> bool" where
  "email_domain_char c = (isalpha_char c \<or> isdigit_char c \<or> c \<in> set ''.-'')"

text \<open>\<open>^[a-zA-Z0-9._%+-]+@[a-zA-Z0-9.-]+\.[a-zA-Z]{2,}$\<close>\<close>

definition email_pattern :: re where
  "email_pattern =
     Seq (Cls email_local_char) (Seq (Star (Cls email_local_char))
    (Seq (Cls (\<lambda>c. c = CHR ''@''))
    (Seq (Cls email_domain_char) (Seq (Star (Cls email_domain_char))
    (Seq (Cls (\<lambda>c. c = CHR ''.''))
    (Seq (Cls isalpha_char) (Seq (Cls isalpha_char) (Star (Cls isalpha_char)))))))))"

definition validate_email :: "string option \<Rightarrow> bool" where
  "validate_email email =
     (case email of
        None \<Rightarrow> False
      | Some e \<Rightarrow> if e = [] then False else re_match_anchored email_pattern e)"

subsection \<open>\<open>sanitize_string\<close>\<close>

text \<open>
  \<open>markupsafe.escape\<close> on a plain string: five replacements, the ampersand
  first.
\<close>

definition escape :: "string \<Rightarrow> string" where
  "escape s =
     replace_char (CHR 0x22) ''&#34;''
       (replace_char (CHR 0x27) ''&#39;''
         (replace_char (CHR ''<'') ''&lt;''
           (replace_char (CHR ''>'') ''&gt;''
             (replace_char (CHR ''&'') ''&amp;'' s))))"

definition sanitize_string :: "string option \<Rightarrow> string" where
  "sanitize_string val =
     (case val of
        None \<Rightarrow> []
      | Some v \<Rightarrow> if v = [] then [] else escape (strip v))"

text \<open>
  What it means for a text to hold no unescaped HTML special character: the
  characters \<open><\<close>, \<open>>\<close>, \<open>'\<close> and \<open>"\<close> do not occur, and every \<open>&\<close> starts one of the
  five character references the escaper writes.
\<close>

definition entities :: "string list" where
  "entities = [''&amp;'', ''&gt;'', ''&lt;'', ''&#39;'', ''&#34;'']"

definition html_special :: "char \<Rightarrow> bool" where
  "html_special c = (c \<in> set [CHR ''&'', CHR ''<'', CHR ''>'', CHR 0x27, CHR 0x22])"

fun no_unescaped :: "string \<Rightarrow> bool" where
  "no_unescaped [] = True"
| "no_unescaped (c # cs) =
     ((if c = CHR ''&'' then (\<exists>e \<in> set entities. take (length e) (c # cs) = e)
       else \<not> html_special c) \<and> no_unescaped cs)"

definition escape_char :: "char \<Rightarrow> string" where
  "escape_char c = escape [c]"

section \<open>Configuration, remote calls and their effects\<close>

text \<open>
  The module-level constants read from the environment. \<open>default_config\<close>
  holds the values the source falls back to when a variable is unset.
\<close>

record config =
  CLIENTIFY_ENABLED :: bool
  TAG_NAME :: string
  SALES_TEAM_ID :: int
  PRICELIST_ORDER_ID :: int
  PRICELIST_MAYORISTA_ID :: int
  PRICELIST_DEFAULT_ID :: int
  TAG_MAYORISTA_ID :: int
  TAG_CLINICA_DENTAL_ID :: int
  TAG_LABORATORIO_ID :: int
  TAG_ESTUDIANTE_ID :: int
  TAG_OTROS_ID :: int
  MANDATORY_TAG_IDS :: "int list"
  WAREHOUSE_ID :: int

definition default_config :: config where
  "default_config =
     \<lparr> CLIENTIFY_ENABLED = True, TAG_NAME = ''Expodental-2026'',
       SALES_TEAM_ID = 22, PRICELIST_ORDER_ID = 48,
       PRICELIST_MAYORISTA_ID = 32, PRICELIST_DEFAULT_ID = 33,
       TAG_MAYORISTA_ID = 2, TAG_CLINICA_DENTAL_ID = 3, TAG_LABORATORIO_ID = 4,
       TAG_ESTUDIANTE_ID = 5, TAG_OTROS_ID = 15, MANDATORY_TAG_IDS = [319, 403],
       WAREHOUSE_ID = 19 \<rparr>"

text \<open>Exceptions a remote call, a parse or a file access can raise.\<close>

datatype exn =
    TransportError
  | XmlRpcFault
  | ValueError
  | KeyError
  | IndexError
  | TypeError
  | FileNotFoundError
  | JSONDecodeError

type_synonym 'a outcome = "exn + 'a"

text \<open>Payloads of the calls to the CRM (Clientify) REST interface.\<close>

record update_data =
  ud_tags :: "string list"
  ud_contact_source :: string
  ud_contact_type :: "string option"

record create_data =
  cd_name :: string
  cd_email :: string
  cd_phone :: string
  cd_company :: string
  cd_tags :: "string list"
  cd_contact_source :: string
  cd_contact_type :: "string option"

datatype http_request =
    SearchContacts string
  | PatchContact int update_data
  | CreateContact create_data
  | PatchOrderValue int rat

text \<open>Payloads of the calls to the ERP (Odoo) through \<open>execute_kw\<close>.\<close>

record partner_vals =
  pv_name :: string
  pv_vat :: "string option"
  pv_email :: string
  pv_street :: string
  pv_city :: string
  pv_state_id :: "int option"
  pv_country_id :: "int option"
  pv_phone :: string
  pv_mobile :: string
  pv_zip :: string
  pv_category_id :: "int list"
  pv_property_product_pricelist :: int

record order_vals =
  ov_partner_id :: "int option"
  ov_pricelist_id :: int
  ov_fiscal_position_id :: int
  ov_client_order_ref :: string
  ov_team_id :: int

record line_vals =
  lv_order_id :: int
  lv_product_id :: int
  lv_product_uom_qty :: int
  lv_price_unit :: "rat option"

text \<open>
  Records read from the ERP, with the fields the handlers use. The total is
  \<open>None\<close> when the key is missing, the partner reference is \<open>None\<close> when the
  order has none (the ERP then sends \<open>False\<close>).
\<close>

record order_rec =
  or_amount_total :: "rat option"
  or_partner_id :: "int option"

record partner_rec =
  pr_name :: string
  pr_email :: string
  pr_phone :: string
  pr_company_name :: string
  pr_category_id :: "int list"

record sale_order_line =
  sl_product_id :: int
  sl_name :: string
  sl_product_uom_qty :: rat
  sl_price_total :: rat

datatype erp_call =
    Authenticate
  | StateSearch string
  | CountrySearch string
  | PartnerSearch string string
  | PartnerWrite "int list" partner_vals
  | PartnerCreate partner_vals
  | PartnerRead int
  | OrderCreate order_vals
  | OrderRead int
  | OrderWriteWarehouse int int
  | ActionConfirm int
  | ProductSearch string
  | LineCreate line_vals
  | LinesSearchRead int

datatype vies_call = ClientInit | CheckVat string string

datatype log_level = INFO | WARNING | ERROR

datatype log_msg =
    Log_clientify_disabled
  | Log_contact_updated
  | Log_contact_update_failed
  | Log_contact_created
  | Log_contact_create_failed
  | Log_vies_error exn
  | Log_auth_error exn
  | Log_warehouse_updated
  | Log_warehouse_failed exn
  | Log_order_value_updated
  | Log_order_value_failed
  | Log_order_value_no_contact
  | Log_order_value_error exn
  | Log_order_value_skipped
  | Log_confirm_error exn

datatype flash_category = FSuccess | FWarning | FError

datatype flash_msg =
    Msg_name_required
  | Msg_email_invalid
  | Msg_customer_updated
  | Msg_customer_create_error
  | Msg_vat_rejected
  | Msg_vat_invalid_national
  | Msg_vat_lookup_error_national
  | Msg_auth_failed
  | Msg_quotation_created
  | Msg_quotation_create_error
  | Msg_product_code_required
  | Msg_product_added
  | Msg_product_add_error
  | Msg_product_not_found
  | Msg_order_lookup_error
  | Msg_order_confirmed
  | Msg_order_confirm_error exn

text \<open>What a request handler does that can be seen from outside, in order.\<close>

datatype event =
    Http http_request
  | Erp erp_call
  | Vies vies_call
  | Log log_level log_msg
  | Flash flash_msg flash_category
  | SessionSet int
  | OpenFile string

datatype target = Index | CreatePresupuesto string | PresupuestoDetails int | Payment int

datatype response =
    Redirect target
  | JsonError string
  | RenderPresupuesto order_rec int "sale_order_line list"

text \<open>
  A run of a piece of code: the value it returns or the exception it raises,
  and the events it caused up to there.
\<close>

type_synonym 'a run = "'a outcome \<times> event list"

definition ret :: "'a \<Rightarrow> 'a run" where
  "ret x = (Inr x, [])"

definition raise :: "exn \<Rightarrow> 'a run" where
  "raise e = (Inl e, [])"

definition emit :: "event \<Rightarrow> unit run" where
  "emit ev = (Inr (), [ev])"

text \<open>A remote call: the event of issuing it, then whatever the remote side answers.\<close>

definition call :: "event \<Rightarrow> 'a outcome \<Rightarrow> 'a run" where
  "call ev out = (out, [ev])"

definition bind :: "'a run \<Rightarrow> ('a \<Rightarrow> 'b run) \<Rightarrow> 'b run" where
  "bind m f =
     (case m of
        (Inl e, tr) \<Rightarrow> (Inl e, tr)
      | (Inr x, tr) \<Rightarrow> (case f x of (r, tr') \<Rightarrow> (r, tr @ tr')))"

definition seq :: "unit run \<Rightarrow> 'b run \<Rightarrow> 'b run" where
  "seq m n = bind m (\<lambda>_. n)"

text \<open>\<open>try: m except Exception as e: h e\<close>\<close>

definition try_except :: "'a run \<Rightarrow> (exn \<Rightarrow> 'a run) \<Rightarrow> 'a run" where
  "try_except m h =
     (case m of
        (Inl e, tr) \<Rightarrow> (case h e of (r, tr') \<Rightarrow> (r, tr @ tr'))
      | (Inr x, tr) \<Rightarrow> (Inr x, tr))"

text \<open>\<open>try: m except E: h\<close> for one exception class \<open>E\<close>.\<close>

definition try_except_only :: "exn \<Rightarrow> 'a run \<Rightarrow> 'a run \<Rightarrow> 'a run" where
  "try_except_only E m h =
     (case m of
        (Inl e, tr) \<Rightarrow> if e = E then (case h of (r, tr') \<Rightarrow> (r, tr @ tr')) else (Inl e, tr)
      | (Inr x, tr) \<Rightarrow> (Inr x, tr))"

text \<open>Truthiness of an identifier that is an integer, \<open>False\<close> or \<open>None\<close>.\<close>

definition truthy :: "int option \<Rightarrow> bool" where
  "truthy v = (case v of None \<Rightarrow> False | Some n \<Rightarrow> n \<noteq> 0)"

text \<open>\<open>request.form.get(k, '')\<close>\<close>

definition form_get :: "(string \<rightharpoonup> string) \<Rightarrow> string \<Rightarrow> string" where
  "form_get form k = (case form k of None \<Rightarrow> [] | Some v \<Rightarrow> v)"

section \<open>Clientify helper\<close>

text \<open>
  The dictionary handed to \<open>create_or_update_client_in_clientify\<close>. The company
  is \<open>None\<close> when the key is missing or its value is not a string; the
  classification is \<open>None\<close> when no category matched.
\<close>

record client_info =
  ci_name :: string
  ci_email :: string
  ci_phone :: string
  ci_company :: "string option"
  ci_customer_tag :: "string option"

text \<open>A contact of a search result; \<open>None\<close> is a missing key.\<close>

record contact =
  ct_id :: int
  ct_email :: "string option"
  ct_tags :: "string list option"

record search_response =
  sr_status_code :: int
  sr_results :: "contact list"

record create_response =
  cr_status_code :: int
  cr_id :: "int option"

text \<open>\<open>c.get("email", "")\<close> and \<open>c.get("tags", [])\<close>\<close>

definition contact_email :: "contact \<Rightarrow> string" where
  "contact_email c = (case ct_email c of None \<Rightarrow> [] | Some e \<Rightarrow> e)"

definition contact_tags :: "contact \<Rightarrow> string list" where
  "contact_tags c = (case ct_tags c of None \<Rightarrow> [] | Some ts \<Rightarrow> ts)"

text \<open>What the CRM answers to the search, to the update and to the creation.\<close>

record clientify_env =
  search_reply :: "search_response outcome"
  patch_reply :: "int outcome"
  create_reply :: "create_response outcome"

definition recognized_tags :: "string list" where
  "recognized_tags = [''mayorista'', ''laboratorio'', ''clinica_dental'', ''estudiante'', ''otros'']"

definition tipo_display_map :: "string \<rightharpoonup> string" where
  "tipo_display_map =
     [''mayorista'' \<mapsto> ''Mayorista'',
      ''laboratorio'' \<mapsto> ''Laboratorio Dental'',
      ''clinica_dental'' \<mapsto> ''Clinica Dental'',
      ''estudiante'' \<mapsto> ''Estudiante de Odontologia'',
      ''otros'' \<mapsto> ''Otros'']"

text \<open>The loop over the existing tags, left at the first recognized one.\<close>

fun first_recognized :: "string list \<Rightarrow> string option" where
  "first_recognized [] = None"
| "first_recognized (tag # tags) =
     (if tag \<in> set recognized_tags then Some tag else first_recognized tags)"

text \<open>\<open>tipo and tipo not in tags and tipo in [...]\<close>: the classification to append, if any.\<close>

definition tipo_to_add :: "string option \<Rightarrow> string list \<Rightarrow> string option" where
  "tipo_to_add tipo tags =
     (case tipo of
        None \<Rightarrow> None
      | Some t \<Rightarrow> if t \<noteq> [] \<and> t \<notin> set tags \<and> t \<in> set recognized_tags then Some t else None)"

definition contact_type_of :: "string option \<Rightarrow> string option" where
  "contact_type_of tipo = (case tipo of None \<Rightarrow> None | Some t \<Rightarrow> tipo_display_map t)"

definition exact_match_in :: "contact list \<Rightarrow> string \<Rightarrow> contact option" where
  "exact_match_in results email =
     find (\<lambda>c. lower (contact_email c) = lower email) results"

text \<open>The branch for a matched contact (source lines 154 to 190).\<close>

definition update_contact ::
  "clientify_env \<Rightarrow> client_info \<Rightarrow> contact \<Rightarrow> (string option \<times> int option) run" where
  "update_contact env client_data exact_match =
     (let client_id = ct_id exact_match;
          existing_tags = contact_tags exact_match;
          tag_reconhecida = first_recognized existing_tags;
          novas_tags = (if ''Expodental 2026'' \<notin> set existing_tags
                        then existing_tags @ [''Expodental 2026''] else existing_tags);
          tipo = ci_customer_tag client_data;
          added = tipo_to_add tipo novas_tags;
          novas_tags = (case added of None \<Rightarrow> novas_tags | Some t \<Rightarrow> novas_tags @ [t]);
          tag_reconhecida = (case added of None \<Rightarrow> tag_reconhecida | Some t \<Rightarrow> Some t);
          update_data = \<lparr> ud_tags = novas_tags, ud_contact_source = ''Expodental 2026'',
                          ud_contact_type = contact_type_of tipo \<rparr>
      in bind (call (Http (PatchContact client_id update_data)) (patch_reply env))
           (\<lambda>status_code.
              seq (if status_code \<in> set [200, 204]
                   then emit (Log INFO Log_contact_updated)
                   else emit (Log ERROR Log_contact_update_failed))
                  (ret (tag_reconhecida, Some client_id))))"

text \<open>The branch that creates a contact (source lines 192 to 222).\<close>

definition create_contact ::
  "config \<Rightarrow> clientify_env \<Rightarrow> client_info \<Rightarrow> (string option \<times> int option) run" where
  "create_contact cfg env client_data =
     (let tags = [TAG_NAME cfg, ''Expodental 2026''];
          tipo = ci_customer_tag client_data;
          added = tipo_to_add tipo [];
          tags = (case added of None \<Rightarrow> tags | Some t \<Rightarrow> t # tags);
          tag_reconhecida = added;
          data = \<lparr> cd_name = ci_name client_data, cd_email = ci_email client_data,
                   cd_phone = ci_phone client_data,
                   cd_company = (case ci_company client_data of
                                   None \<Rightarrow> ci_name client_data
                                 | Some c \<Rightarrow> if strip c \<noteq> [] then c else ci_name client_data),
                   cd_tags = tags, cd_contact_source = ''Expodental 2026'',
                   cd_contact_type = contact_type_of tipo \<rparr>
      in bind (call (Http (CreateContact data)) (create_reply env))
           (\<lambda>create_response.
              if cr_status_code create_response \<in> set [200, 201]
              then (case cr_id create_response of
                      None \<Rightarrow> raise KeyError
                    | Some client_id \<Rightarrow>
                        seq (emit (Log INFO Log_contact_created))
                            (ret (tag_reconhecida, Some client_id)))
              else seq (emit (Log ERROR Log_contact_create_failed)) (ret (None, None))))"

definition create_or_update_client_in_clientify ::
  "config \<Rightarrow> clientify_env \<Rightarrow> client_info \<Rightarrow> (string option \<times> int option) run" where
  "create_or_update_client_in_clientify cfg env client_data =
     (if \<not> CLIENTIFY_ENABLED cfg
      then seq (emit (Log INFO Log_clientify_disabled)) (ret (None, None))
      else bind (call (Http (SearchContacts (ci_email client_data))) (search_reply env))
             (\<lambda>response.
                case (if sr_status_code response = 200 \<and> sr_results response \<noteq> []
                      then exact_match_in (sr_results response) (ci_email client_data)
                      else None) of
                  Some exact_match \<Rightarrow> update_contact env client_data exact_match
                | None \<Rightarrow> create_contact cfg env client_data))"

section \<open>Application routes\<close>

subsection \<open>\<open>save\<close>\<close>

text \<open>What the ERP answers to the calls of \<open>save\<close>, in the order they are made.\<close>

record save_env =
  sv_auth :: "int option outcome"
  sv_state_search :: "int list outcome"
  sv_country_search :: "int list outcome"
  sv_partner_search :: "int list outcome"
  sv_write :: "bool outcome"
  sv_create :: "int option outcome"

definition tag_mapping :: "config \<Rightarrow> string \<rightharpoonup> int" where
  "tag_mapping cfg =
     [''clinica_dental'' \<mapsto> TAG_CLINICA_DENTAL_ID cfg,
      ''laboratorio'' \<mapsto> TAG_LABORATORIO_ID cfg,
      ''estudiante'' \<mapsto> TAG_ESTUDIANTE_ID cfg,
      ''mayorista'' \<mapsto> TAG_MAYORISTA_ID cfg,
      ''otros'' \<mapsto> TAG_OTROS_ID cfg]"

text \<open>\<open>ids[0] if ids else False\<close>\<close>

definition first_or_false :: "int list \<Rightarrow> int option" where
  "first_or_false ids = (case ids of [] \<Rightarrow> None | x # _ \<Rightarrow> Some x)"

text \<open>
  The dictionary written to \<open>res.partner\<close> (source lines 402 to 413, and again
  lines 420 to 431), with the tag and price-list selection that precedes it
  (source lines 375 to 393).
\<close>

definition partner_payload ::
  "config \<Rightarrow> (string \<rightharpoonup> string) \<Rightarrow> int list \<Rightarrow> int list \<Rightarrow> partner_vals" where
  "partner_payload cfg form state_id country_id =
     (let name = strip (form_get form ''name'');
          vat = strip (form_get form ''vat'');
          email = strip (form_get form ''email'');
          street = strip (form_get form ''street'');
          city = strip (form_get form ''city'');
          phone = strip (form_get form ''phone'');
          mobile = strip (form_get form ''mobile'');
          zip_code = strip (form_get form ''zip'');
          customer_tag = strip (form_get form ''customer_tag'');
          tag_id = (case tag_mapping cfg customer_tag of
                      None \<Rightarrow> TAG_OTROS_ID cfg | Some i \<Rightarrow> i);
          mandatory_tags = MANDATORY_TAG_IDS cfg;
          tag_ids = [tag_id] @ mandatory_tags;
          pricelist_id = (if tag_id = TAG_MAYORISTA_ID cfg
                          then PRICELIST_MAYORISTA_ID cfg else PRICELIST_DEFAULT_ID cfg)
      in \<lparr> pv_name = name,
           pv_vat = (if vat \<noteq> [] \<and> length vat \<ge> 4 \<and> isalpha (take 2 vat)
                     then Some vat else None),
           pv_email = email, pv_street = street, pv_city = city,
           pv_state_id = first_or_false state_id,
           pv_country_id = first_or_false country_id,
           pv_phone = phone, pv_mobile = mobile, pv_zip = zip_code,
           pv_category_id = tag_ids,
           pv_property_product_pricelist = pricelist_id \<rparr>)"

definition save :: "config \<Rightarrow> save_env \<Rightarrow> (string \<rightharpoonup> string) \<Rightarrow> response run" where
  "save cfg env form =
     (let name = strip (form_get form ''name'');
          vat = strip (form_get form ''vat'');
          email = strip (form_get form ''email'');
          state_name = strip (form_get form ''state'');
          country_name = strip (form_get form ''country'')
      in if name = [] then seq (emit (Flash Msg_name_required FError)) (ret (Redirect Index))
         else if email \<noteq> [] \<and> \<not> validate_email (Some email)
         then seq (emit (Flash Msg_email_invalid FError)) (ret (Redirect Index))
         else
           bind (call (Erp Authenticate) (sv_auth env)) (\<lambda>uid.
           if \<not> truthy uid then ret (JsonError ''Authentication failed'')
           else
             bind (call (Erp (StateSearch state_name)) (sv_state_search env)) (\<lambda>state_id.
             bind (call (Erp (CountrySearch country_name)) (sv_country_search env)) (\<lambda>country_id.
             let vals = partner_payload cfg form state_id country_id in
             bind (call (Erp (PartnerSearch vat email)) (sv_partner_search env))
               (\<lambda>existing_partner_ids.
                  case existing_partner_ids of
                    first_id # _ \<Rightarrow>
                      bind (call (Erp (PartnerWrite existing_partner_ids vals)) (sv_write env))
                        (\<lambda>_. seq (emit (SessionSet first_id))
                             (seq (emit (Flash Msg_customer_updated FSuccess))
                                  (ret (Redirect (CreatePresupuesto vat)))))
                  | [] \<Rightarrow>
                      bind (call (Erp (PartnerCreate vals)) (sv_create env))
                        (\<lambda>new_partner_id.
                           case (if truthy new_partner_id then new_partner_id else None) of
                             Some new_id \<Rightarrow>
                               seq (emit (SessionSet new_id))
                                   (ret (Redirect (CreatePresupuesto vat)))
                           | None \<Rightarrow>
                               seq (emit (Flash Msg_customer_create_error FError))
                                   (ret (Redirect (CreatePresupuesto vat)))))))))"

subsection \<open>\<open>create_presupuesto\<close>\<close>

text \<open>
  What the VAT service and the ERP answer. \<open>cp_client\<close> is the construction of
  the SOAP client, which fetches the service description; \<open>cp_check_vat\<close> is the
  \<open>valid\<close> flag of the answer to \<open>checkVat\<close>.
\<close>

record presupuesto_env =
  cp_client :: "unit outcome"
  cp_check_vat :: "bool outcome"
  cp_auth :: "int option outcome"
  cp_order_create :: "int option outcome"

text \<open>
  The fiscal position of the order (source lines 451 to 471), for a VAT string
  that has passed the length check.
\<close>

definition fiscal_position :: "presupuesto_env \<Rightarrow> string \<Rightarrow> int run" where
  "fiscal_position env vat =
     (let country_code = upper (take 2 vat);
          number = drop 2 vat
      in if country_code = ''ES'' \<and> length vat > 2 \<and> isdigit [vat ! 2] then ret 1
         else if country_code \<noteq> ''ES'' then
           bind (call (Vies ClientInit) (cp_client env)) (\<lambda>client.
             try_except
               (bind (call (Vies (CheckVat country_code number)) (cp_check_vat env))
                  (\<lambda>valid.
                     if valid then ret 4
                     else seq (emit (Flash Msg_vat_invalid_national FWarning)) (ret 1)))
               (\<lambda>e. seq (emit (Log WARNING (Log_vies_error e)))
                      (seq (emit (Flash Msg_vat_lookup_error_national FWarning)) (ret 1))))
         else ret 1)"

definition create_presupuesto ::
  "config \<Rightarrow> presupuesto_env \<Rightarrow> int option \<Rightarrow> string option \<Rightarrow> response run" where
  "create_presupuesto cfg env session_partner_id vat_arg =
     (case (case vat_arg of None \<Rightarrow> None
            | Some v \<Rightarrow> if v = [] \<or> length v < 3 then None else Some v) of
        None \<Rightarrow> seq (emit (Flash Msg_vat_rejected FError)) (ret (Redirect Index))
      | Some vat \<Rightarrow>
          bind (fiscal_position env vat) (\<lambda>fiscal_position_id.
          bind (call (Erp Authenticate) (cp_auth env)) (\<lambda>uid.
          if \<not> truthy uid then seq (emit (Flash Msg_auth_failed FError)) (ret (Redirect Index))
          else
            bind (call (Erp (OrderCreate
                    \<lparr> ov_partner_id = session_partner_id,
                      ov_pricelist_id = PRICELIST_ORDER_ID cfg,
                      ov_fiscal_position_id = fiscal_position_id,
                      ov_client_order_ref = ''Expodental 2026'',
                      ov_team_id = SALES_TEAM_ID cfg \<rparr>)) (cp_order_create env))
              (\<lambda>presupuesto_id.
                 case (if truthy presupuesto_id then presupuesto_id else None) of
                   Some pid \<Rightarrow>
                     seq (emit (Flash Msg_quotation_created FSuccess))
                         (ret (Redirect (PresupuestoDetails pid)))
                 | None \<Rightarrow>
                     seq (emit (Flash Msg_quotation_create_error FError))
                         (ret (Redirect Index))))))"

subsection \<open>\<open>presupuesto_details\<close>\<close>

datatype http_method = GET | POST

text \<open>
  \<open>pd_price_file\<close> is the outcome of opening and parsing
  \<open>price_list_feira.json\<close>: its entries in file order, a JSON \<open>null\<close> as \<open>None\<close>.
\<close>

record details_env =
  pd_auth :: "int option outcome"
  pd_price_file :: "(string \<times> rat option) list outcome"
  pd_product_search :: "int list outcome"
  pd_line_create :: "int option outcome"
  pd_order_read :: "order_rec list outcome"
  pd_lines :: "sale_order_line list outcome"

text \<open>\<open>{k.lower(): v for k, v in custom_prices.items()}\<close>: a later entry replaces an earlier one.\<close>

definition custom_prices_lower :: "(string \<times> rat option) list \<Rightarrow> string \<rightharpoonup> rat option" where
  "custom_prices_lower custom_prices =
     foldl (\<lambda>m (k, v). m(lower k \<mapsto> v)) Map.empty custom_prices"

text \<open>\<open>d.get(k)\<close>: \<open>None\<close> for a missing key and for a key bound to \<open>null\<close>.\<close>

definition dict_get :: "(string \<rightharpoonup> rat option) \<Rightarrow> string \<Rightarrow> rat option" where
  "dict_get d k = (case d k of None \<Rightarrow> None | Some v \<Rightarrow> v)"

text \<open>\<open>int(request.form.get('product_qty', 1))\<close>\<close>

definition product_qty_of :: "(string \<rightharpoonup> string) \<Rightarrow> int run" where
  "product_qty_of form =
     (case form ''product_qty'' of
        None \<Rightarrow> ret 1
      | Some s \<Rightarrow> (case py_int s of None \<Rightarrow> raise ValueError | Some n \<Rightarrow> ret n))"

text \<open>The body of \<open>if request.method == 'POST'\<close> (source lines 512 to 550).\<close>

definition add_line :: "details_env \<Rightarrow> int \<Rightarrow> (string \<rightharpoonup> string) \<Rightarrow> unit run" where
  "add_line env presupuesto_id form =
     (let product_code = lower (strip (form_get form ''product_code''))
      in bind (product_qty_of form) (\<lambda>product_qty.
         if product_code = [] then emit (Flash Msg_product_code_required FWarning)
         else
           bind (try_except_only FileNotFoundError
                   (bind (call (OpenFile ''price_list_feira.json'') (pd_price_file env))
                      (\<lambda>custom_prices. ret (custom_prices_lower custom_prices)))
                   (ret Map.empty))
             (\<lambda>prices.
                let custom_price = dict_get prices product_code in
                bind (call (Erp (ProductSearch product_code)) (pd_product_search env))
                  (\<lambda>product_ids.
                     case product_ids of
                       product_id # _ \<Rightarrow>
                         bind (call (Erp (LineCreate
                                 \<lparr> lv_order_id = presupuesto_id, lv_product_id = product_id,
                                   lv_product_uom_qty = product_qty,
                                   lv_price_unit = custom_price \<rparr>)) (pd_line_create env))
                           (\<lambda>new_line_id.
                              if truthy new_line_id
                              then emit (Flash Msg_product_added FSuccess)
                              else emit (Flash Msg_product_add_error FError))
                     | [] \<Rightarrow> emit (Flash Msg_product_not_found FError)))))"

definition presupuesto_details ::
  "details_env \<Rightarrow> int \<Rightarrow> http_method \<Rightarrow> (string \<rightharpoonup> string) \<Rightarrow> response run" where
  "presupuesto_details env presupuesto_id method form =
     bind (call (Erp Authenticate) (pd_auth env)) (\<lambda>uid.
     if \<not> truthy uid then seq (emit (Flash Msg_auth_failed FError)) (ret (Redirect Index))
     else
       seq (if method = POST then add_line env presupuesto_id form else ret ())
         (bind (call (Erp (OrderRead presupuesto_id)) (pd_order_read env)) (\<lambda>orders.
            case orders of
              [] \<Rightarrow> raise IndexError
            | presupuesto_data # _ \<Rightarrow>
                bind (call (Erp (LinesSearchRead presupuesto_id)) (pd_lines env))
                  (\<lambda>sale_order_lines. ret (RenderPresupuesto presupuesto_data presupuesto_id sale_order_lines)))))"

subsection \<open>\<open>confirm_presupuesto\<close>\<close>

record confirm_env =
  cf_auth :: "int option outcome"
  cf_order_read :: "order_rec list outcome"
  cf_partner_read :: "partner_rec list outcome"
  cf_warehouse_write :: "bool outcome"
  cf_clientify :: clientify_env
  cf_order_value_patch :: "int outcome"
  cf_action_confirm :: "bool outcome"

definition odoo_authenticate :: "int option outcome \<Rightarrow> int option run" where
  "odoo_authenticate reply =
     try_except (call (Erp Authenticate) reply)
       (\<lambda>e. seq (emit (Log ERROR (Log_auth_error e))) (ret None))"

text \<open>The dictionary literal: a later key replaces an equal earlier one.\<close>

definition tag_map_reverse :: "config \<Rightarrow> int \<rightharpoonup> string" where
  "tag_map_reverse cfg =
     [TAG_MAYORISTA_ID cfg \<mapsto> ''mayorista'',
      TAG_CLINICA_DENTAL_ID cfg \<mapsto> ''clinica_dental'',
      TAG_LABORATORIO_ID cfg \<mapsto> ''laboratorio'',
      TAG_ESTUDIANTE_ID cfg \<mapsto> ''estudiante'',
      TAG_OTROS_ID cfg \<mapsto> ''otros'']"

fun first_category :: "(int \<rightharpoonup> string) \<Rightarrow> int list \<Rightarrow> string option" where
  "first_category m [] = None"
| "first_category m (cat_id # category_ids) =
     (case m cat_id of Some t \<Rightarrow> Some t | None \<Rightarrow> first_category m category_ids)"

text \<open>The customer data handed to the CRM helper (source lines 581 to 607).\<close>

definition client_info_of :: "config \<Rightarrow> partner_rec \<Rightarrow> client_info" where
  "client_info_of cfg partner_data =
     (let company_value = (if pr_company_name partner_data \<noteq> []
                           then pr_company_name partner_data
                           else pr_name partner_data)
      in \<lparr> ci_name = pr_name partner_data, ci_email = pr_email partner_data,
           ci_phone = pr_phone partner_data, ci_company = Some company_value,
           ci_customer_tag =
             first_category (tag_map_reverse cfg) (pr_category_id partner_data) \<rparr>)"

text \<open>The warehouse update (source lines 610 to 617).\<close>

definition update_warehouse :: "config \<Rightarrow> confirm_env \<Rightarrow> int \<Rightarrow> unit run" where
  "update_warehouse cfg env presupuesto_id =
     try_except
       (bind (call (Erp (OrderWriteWarehouse presupuesto_id (WAREHOUSE_ID cfg)))
                (cf_warehouse_write env))
          (\<lambda>update_result. if update_result then emit (Log INFO Log_warehouse_updated) else ret ()))
       (\<lambda>e. emit (Log ERROR (Log_warehouse_failed e)))"

text \<open>The CRM synchronization (source lines 620 to 652).\<close>

definition sync_clientify :: "config \<Rightarrow> confirm_env \<Rightarrow> client_info \<Rightarrow> rat \<Rightarrow> unit run" where
  "sync_clientify cfg env client_info total_pedido =
     (if CLIENTIFY_ENABLED cfg then
        bind (create_or_update_client_in_clientify cfg (cf_clientify env) client_info)
          (\<lambda>(_, clientify_id).
             try_except
               (case (if truthy clientify_id then clientify_id else None) of
                  Some cid \<Rightarrow>
                    bind (call (Http (PatchOrderValue cid total_pedido)) (cf_order_value_patch env))
                      (\<lambda>status_code.
                         if status_code \<in> set [200, 204]
                         then emit (Log INFO Log_order_value_updated)
                         else emit (Log ERROR Log_order_value_failed))
                | None \<Rightarrow> emit (Log WARNING Log_order_value_no_contact))
               (\<lambda>e. emit (Log ERROR (Log_order_value_error e))))
      else emit (Log INFO Log_order_value_skipped))"

text \<open>The confirmation in the ERP (source lines 655 to 660).\<close>

definition confirm_order :: "confirm_env \<Rightarrow> int \<Rightarrow> unit run" where
  "confirm_order env presupuesto_id =
     try_except
       (bind (call (Erp (ActionConfirm presupuesto_id)) (cf_action_confirm env))
          (\<lambda>_. emit (Flash Msg_order_confirmed FSuccess)))
       (\<lambda>e. seq (emit (Log ERROR (Log_confirm_error e)))
              (emit (Flash (Msg_order_confirm_error e) FError)))"

definition confirm_presupuesto :: "config \<Rightarrow> confirm_env \<Rightarrow> int \<Rightarrow> response run" where
  "confirm_presupuesto cfg env presupuesto_id =
     bind (odoo_authenticate (cf_auth env)) (\<lambda>uid.
     if \<not> truthy uid then seq (emit (Flash Msg_auth_failed FError)) (ret (Redirect Index))
     else
       bind (call (Erp (OrderRead presupuesto_id)) (cf_order_read env)) (\<lambda>orders.
       case orders of
         [] \<Rightarrow> seq (emit (Flash Msg_order_lookup_error FError)) (ret (Redirect Index))
       | presupuesto_data # _ \<Rightarrow>
           let total_pedido = (case or_amount_total presupuesto_data of None \<Rightarrow> 0 | Some a \<Rightarrow> a)
           in case or_partner_id presupuesto_data of
                None \<Rightarrow> raise TypeError
              | Some partner_id \<Rightarrow>
                  bind (call (Erp (PartnerRead partner_id)) (cf_partner_read env)) (\<lambda>partners.
                  case partners of
                    [] \<Rightarrow> raise IndexError
                  | partner_data # _ \<Rightarrow>
                      let client_info = client_info_of cfg partner_data
                      in seq (update_warehouse cfg env presupuesto_id)
                           (seq (sync_clientify cfg env client_info total_pedido)
                              (seq (confirm_order env presupuesto_id)
                                 (ret (Redirect (Payment presupuesto_id))))))))"

section \<open>Concrete runs\<close>

text \<open>Replies of the CRM and requests used to run the handlers on concrete inputs.\<close>

definition env_search_down :: clientify_env where
  "env_search_down =
     \<lparr> search_reply = Inr \<lparr> sr_status_code = 503, sr_results = [] \<rparr>,
       patch_reply = Inr 200,
       create_reply = Inr \<lparr> cr_status_code = 201, cr_id = Some 77 \<rparr> \<rparr>"

definition client_ana :: client_info where
  "client_ana =
     \<lparr> ci_name = ''Ana'', ci_email = ''ana@lab.es'', ci_phone = ''600'',
       ci_company = Some ''Lab Ana'', ci_customer_tag = Some ''laboratorio'' \<rparr>"




text \<open>An order of a customer, and an ERP that answers every call.\<close>

definition partner_ana :: partner_rec where
  "partner_ana =
     \<lparr> pr_name = ''Ana'', pr_email = ''ana@lab.es'', pr_phone = ''600'',
       pr_company_name = ''Lab Ana'', pr_category_id = [4, 319, 403] \<rparr>"

text \<open>The CRM cannot be reached: the search request raises a transport error.\<close>

definition env_crm_unreachable :: confirm_env where
  "env_crm_unreachable =
     \<lparr> cf_auth = Inr (Some 2),
       cf_order_read = Inr [\<lparr> or_amount_total = Some 120, or_partner_id = Some 5 \<rparr>],
       cf_partner_read = Inr [partner_ana],
       cf_warehouse_write = Inr True,
       cf_clientify = \<lparr> search_reply = Inl TransportError, patch_reply = Inr 200,
                        create_reply = Inr \<lparr> cr_status_code = 201, cr_id = Some 77 \<rparr> \<rparr>,
       cf_order_value_patch = Inr 200,
       cf_action_confirm = Inr True \<rparr>"

text \<open>Runs of \<open>save\<close>: a customer the ERP does not know, and one it knows twice.\<close>

definition env_new_customer :: save_env where
  "env_new_customer =
     \<lparr> sv_auth = Inr (Some 2), sv_state_search = Inr [], sv_country_search = Inr [68],
       sv_partner_search = Inr [], sv_write = Inr True, sv_create = Inr (Some 901) \<rparr>"

definition env_two_partners :: save_env where
  "env_two_partners =
     \<lparr> sv_auth = Inr (Some 2), sv_state_search = Inr [], sv_country_search = Inr [68],
       sv_partner_search = Inr [11, 12], sv_write = Inr True, sv_create = Inr None \<rparr>"

definition form_vat :: "string \<Rightarrow> string \<Rightarrow> (string \<rightharpoonup> string)" where
  "form_vat vat customer_tag =
     [''name'' \<mapsto> ''Ana'', ''vat'' \<mapsto> vat, ''email'' \<mapsto> ''ana@lab.es'',
      ''country'' \<mapsto> ''Spain'', ''customer_tag'' \<mapsto> customer_tag]"


text \<open>
  Runs of \<open>presupuesto_details\<close>: an ERP that finds the product, and the override
  table \<open>{"p100": 9.99}\<close>.
\<close>

definition env_catalog :: details_env where
  "env_catalog =
     \<lparr> pd_auth = Inr (Some 2),
       pd_price_file = Inr [(''p100'', Some 9.99)],
       pd_product_search = Inr [501, 502],
       pd_line_create = Inr (Some 9001),
       pd_order_read = Inr [\<lparr> or_amount_total = Some 120, or_partner_id = Some 5 \<rparr>],
       pd_lines = Inr [] \<rparr>"

definition form_line :: "string \<Rightarrow> string option \<Rightarrow> (string \<rightharpoonup> string)" where
  "form_line product_code product_qty =
     (\<lambda>k. if k = ''product_code'' then Some product_code
          else if k = ''product_qty'' then product_qty else None)"


text \<open>
  Runs of \<open>create_presupuesto\<close>: the VAT service cannot be reached when the SOAP
  client is built, or only when \<open>checkVat\<close> is called.
\<close>

definition env_vies_unreachable :: presupuesto_env where
  "env_vies_unreachable =
     \<lparr> cp_client = Inl TransportError, cp_check_vat = Inr True,
       cp_auth = Inr (Some 2), cp_order_create = Inr (Some 42) \<rparr>"

definition env_vies_call_fails :: presupuesto_env where
  "env_vies_call_fails =
     \<lparr> cp_client = Inr (), cp_check_vat = Inl TransportError,
       cp_auth = Inr (Some 2), cp_order_create = Inr (Some 42) \<rparr>"


section \<open>Running the handlers\<close>

lemmas run_defs =
  bind_def call_def emit_def seq_def ret_def raise_def try_except_def try_except_only_def

lemma seq_Inr: "fst m = Inr () \<Longrightarrow> seq m n = (fst n, snd m @ snd n)"
  by (cases m; cases n) (simp add: run_defs)

lemma seq_Inl: "fst m = Inl e \<Longrightarrow> seq m n = (Inl e, snd m)"
  by (cases m) (simp add: run_defs)

lemma bind_Inr: "fst m = Inr x \<Longrightarrow> bind m f = (fst (f x), snd m @ snd (f x))"
  by (cases m; cases "f x") (simp add: run_defs)

lemma bind_Inl: "fst m = Inl e \<Longrightarrow> bind m f = (Inl e, snd m)"
  by (cases m) (simp add: run_defs)

lemma try_except_unit:
  fixes m :: "unit run"
  assumes "\<And>e. fst (h e) = Inr ()"
  shows "fst (try_except m h) = Inr ()"
proof (cases m)
  case (Pair r tr)
  show ?thesis
  proof (cases r)
    case (Inl e)
    with Pair assms [of e] show ?thesis by (cases "h e") (simp add: try_except_def)
  next
    case (Inr u)
    with Pair show ?thesis by (simp add: try_except_def)
  qed
qed

section \<open>Properties of \<open>sanitize_string\<close>\<close>

lemma replace_char_append: "replace_char c r (xs @ ys) = replace_char c r xs @ replace_char c r ys"
  by (simp add: replace_char_def)

lemma escape_append: "escape (xs @ ys) = escape xs @ escape ys"
  by (simp add: escape_def replace_char_append)

lemma escape_Cons: "escape (x # xs) = escape_char x @ escape xs"
  using escape_append [of "[x]" xs] by (simp add: escape_char_def)

lemma escape_Nil: "escape [] = []"
  by (simp add: escape_def replace_char_def)

lemma escape_char_cases:
  "escape_char c =
     (if c = CHR ''&'' then ''&amp;'' else if c = CHR ''>'' then ''&gt;''
      else if c = CHR ''<'' then ''&lt;'' else if c = CHR 0x27 then ''&#39;''
      else if c = CHR 0x22 then ''&#34;'' else [c])"
  by (simp add: escape_char_def escape_def replace_char_def)

lemma no_unescaped_append_safe:
  "no_unescaped xs \<Longrightarrow> no_unescaped ys \<Longrightarrow> \<forall>c \<in> set xs. c \<noteq> CHR ''&'' \<Longrightarrow> no_unescaped (xs @ ys)"
  by (induction xs) auto

lemma no_unescaped_escape: "no_unescaped (escape s)"
proof (induction s)
  case Nil
  show ?case by (simp add: escape_Nil)
next
  case (Cons c s)
  show ?case
    using Cons.IH
    by (simp add: escape_Cons escape_char_cases entities_def html_special_def)
qed

lemma escape_char_nonempty: "escape_char c \<noteq> []"
  by (simp add: escape_char_cases)

lemma hd_escape_char: "\<not> isspace c \<Longrightarrow> \<not> isspace (hd (escape_char c))"
  by (simp add: escape_char_cases isspace_def)

lemma last_escape_char: "\<not> isspace c \<Longrightarrow> \<not> isspace (last (escape_char c))"
  by (simp add: escape_char_cases isspace_def)

lemma escape_eq_Nil: "escape s = [] \<longleftrightarrow> s = []"
  by (cases s) (simp_all add: escape_Nil escape_Cons escape_char_nonempty)

lemma hd_escape: "s \<noteq> [] \<Longrightarrow> hd (escape s) = hd (escape_char (hd s))"
  by (cases s) (simp_all add: escape_Cons escape_char_nonempty)

lemma last_escape: "s \<noteq> [] \<Longrightarrow> last (escape s) = last (escape_char (last s))"
proof (induction s)
  case Nil
  then show ?case by simp
next
  case (Cons c s)
  show ?case
  proof (cases "s = []")
    case True
    then show ?thesis by (simp add: escape_Cons escape_Nil)
  next
    case False
    then have "escape s \<noteq> []" by (simp add: escape_eq_Nil)
    with False Cons.IH show ?thesis by (simp add: escape_Cons)
  qed
qed

lemma strip_fixed: "t \<noteq> [] \<Longrightarrow> \<not> isspace (hd t) \<Longrightarrow> \<not> isspace (last t) \<Longrightarrow> strip t = t"
proof -
  assume t: "t \<noteq> []" and h: "\<not> isspace (hd t)" and l: "\<not> isspace (last t)"
  from t h have a: "dropWhile isspace t = t" by (cases t) simp_all
  from t l have "dropWhile isspace (rev t) = rev t"
    by (cases "rev t") (simp_all add: hd_rev [symmetric])
  with a show ?thesis by (simp add: strip_def)
qed

lemma strip_ends:
  assumes "strip s \<noteq> []"
  shows "\<not> isspace (hd (strip s))" and "\<not> isspace (last (strip s))"
proof -
  let ?a = "dropWhile isspace s"
  let ?b = "dropWhile isspace (rev ?a)"
  from assms have b: "?b \<noteq> []" by (simp add: strip_def)
  have a: "?a \<noteq> []"
  proof
    assume e: "?a = []"
    have "?b = []" unfolding e by simp
    with b show False by (rule notE)
  qed
  from b have hb: "\<not> isspace (hd ?b)" by (rule hd_dropWhile)
  from a have ha: "\<not> isspace (hd ?a)" by (rule hd_dropWhile)
  obtain ws where ws: "rev ?a = ws @ ?b"
    by (metis takeWhile_dropWhile_id)
  from b ws have "last ?b = last (rev ?a)" by (metis last_appendR)
  also from a have "\<dots> = hd ?a" by (simp add: last_rev)
  finally have lb: "\<not> isspace (last ?b)" using ha by simp
  from b lb show "\<not> isspace (hd (strip s))" by (simp add: strip_def hd_rev)
  from b hb show "\<not> isspace (last (strip s))" by (simp add: strip_def last_rev)
qed

lemma strip_escape_strip: "strip (escape (strip s)) = escape (strip s)"
proof (cases "strip s = []")
  case True
  have "strip [] = []" by (simp add: strip_def)
  with True show ?thesis by (simp add: escape_Nil)
next
  case False
  then have e: "escape (strip s) \<noteq> []" by (simp add: escape_eq_Nil)
  from False have "\<not> isspace (hd (escape (strip s)))"
    by (simp add: hd_escape hd_escape_char strip_ends)
  moreover from False have "\<not> isspace (last (escape (strip s)))"
    by (simp add: last_escape last_escape_char strip_ends)
  ultimately show ?thesis using e by (rule_tac strip_fixed)
qed

lemma strip_Nil: "strip [] = []"
  by (simp add: strip_def)

lemma escape_no_markup:
  "c \<in> set (escape s) \<Longrightarrow> c \<notin> set [CHR ''<'', CHR ''>'', CHR 0x27, CHR 0x22]"
  by (induction s) (auto simp: escape_Nil escape_Cons escape_char_cases split: if_splits)

text \<open>
  Claim C8. For every input, trimming the output of \<open>sanitize_string\<close> changes
  nothing, no HTML special character is left unescaped in the output (none of
  \<open><\<close>, \<open>>\<close>, \<open>'\<close>, \<open>"\<close> occurs, and every \<open>&\<close> starts a character reference), and an
  empty or absent input yields the empty string.
\<close>

theorem sanitize_string_trimmed_and_escaped:
  "strip (sanitize_string val) = sanitize_string val
   \<and> no_unescaped (sanitize_string val)
   \<and> (\<forall>c \<in> set (sanitize_string val). c \<notin> set [CHR ''<'', CHR ''>'', CHR 0x27, CHR 0x22])
   \<and> sanitize_string None = [] \<and> sanitize_string (Some []) = []"
proof (intro conjI)
  show "strip (sanitize_string val) = sanitize_string val"
    by (simp add: sanitize_string_def strip_escape_strip strip_Nil split: option.split)
  show "no_unescaped (sanitize_string val)"
    by (simp add: sanitize_string_def no_unescaped_escape split: option.split)
  show "\<forall>c \<in> set (sanitize_string val). c \<notin> set [CHR ''<'', CHR ''>'', CHR 0x27, CHR 0x22]"
    using escape_no_markup by (auto simp: sanitize_string_def split: option.split)
  show "sanitize_string None = []" by (simp add: sanitize_string_def)
  show "sanitize_string (Some []) = []" by (simp add: sanitize_string_def)
qed

text \<open>A run of the theorem on an input with surrounding whitespace and all five special characters.\<close>

theorem sanitize_string_witness:
  "sanitize_string (Some [CHR '' '', CHR ''<'', CHR ''b'', CHR ''>'', CHR ''&'', CHR 0x22, CHR 0x27, CHR 0x0A])
     = ''&lt;b&gt;&amp;&#34;&#39;''
   \<and> strip ''&lt;b&gt;&amp;&#34;&#39;'' = ''&lt;b&gt;&amp;&#34;&#39;''
   \<and> no_unescaped ''&lt;b&gt;&amp;&#34;&#39;''"
proof -
  have e: "sanitize_string (Some [CHR '' '', CHR ''<'', CHR ''b'', CHR ''>'', CHR ''&'', CHR 0x22, CHR 0x27, CHR 0x0A])
     = ''&lt;b&gt;&amp;&#34;&#39;''"
    by (simp add: sanitize_string_def strip_def isspace_def escape_def replace_char_def)
  show ?thesis
    using sanitize_string_trimmed_and_escaped
      [of "Some [CHR '' '', CHR ''<'', CHR ''b'', CHR ''>'', CHR ''&'', CHR 0x22, CHR 0x27, CHR 0x0A]"]
    unfolding e by simp
qed

section \<open>Properties of the Clientify helper\<close>





text \<open>
  Claim C10. When the search answers with a status other than 200, with no
  results, or with results none of which has the requested email (compared in
  lower case), the helper goes on to the creation branch: the search is followed
  by the POST of a new contact and by no update, and the result is that of the
  creation, not an error about the search.
\<close>

theorem search_miss_creates_contact:
  assumes "CLIENTIFY_ENABLED cfg"
      and "search_reply env = Inr response"
      and "sr_status_code response \<noteq> 200 \<or> sr_results response = []
           \<or> (\<forall>c \<in> set (sr_results response).
                 lower (contact_email c) \<noteq> lower (ci_email client_data))"
  shows "\<exists>data rest.
           snd (create_or_update_client_in_clientify cfg env client_data) =
             Http (SearchContacts (ci_email client_data)) # Http (CreateContact data) # rest
         \<and> cd_name data = ci_name client_data \<and> cd_email data = ci_email client_data
         \<and> (\<forall>i u. Http (PatchContact i u) \<notin> set rest)
         \<and> fst (create_or_update_client_in_clientify cfg env client_data) =
             (case create_reply env of
                Inl e \<Rightarrow> Inl e
              | Inr r \<Rightarrow>
                  if cr_status_code r \<in> set [200, 201]
                  then (case cr_id r of
                          None \<Rightarrow> Inl KeyError
                        | Some i \<Rightarrow> Inr (tipo_to_add (ci_customer_tag client_data) [], Some i))
                  else Inr (None, None))"
proof -
  from assms(3) have miss:
    "(if sr_status_code response = 200 \<and> sr_results response \<noteq> []
      then exact_match_in (sr_results response) (ci_email client_data) else None) = None"
    by (auto simp: exact_match_in_def find_None_iff)
  have eq: "create_or_update_client_in_clientify cfg env client_data =
           (fst (create_contact cfg env client_data),
            Http (SearchContacts (ci_email client_data)) # snd (create_contact cfg env client_data))"
    using assms(1,2) miss
    by (simp add: create_or_update_client_in_clientify_def run_defs split: prod.splits)
  show ?thesis
    unfolding eq
    by (cases "create_reply env")
       (auto simp: create_contact_def run_defs Let_def split: option.splits)
qed

text \<open>A run where the search answers 503: the contact is created.\<close>

theorem search_miss_creates_contact_witness:
  "fst (create_or_update_client_in_clientify default_config env_search_down client_ana)
     = Inr (Some ''laboratorio'', Some 77)
   \<and> (\<exists>data rest.
         snd (create_or_update_client_in_clientify default_config env_search_down client_ana) =
           Http (SearchContacts ''ana@lab.es'') # Http (CreateContact data) # rest)"
proof -
  have a: "CLIENTIFY_ENABLED default_config" by (simp add: default_config_def)
  have b: "search_reply env_search_down = Inr \<lparr> sr_status_code = 503, sr_results = [] \<rparr>"
    by (simp add: env_search_down_def)
  have c: "sr_status_code \<lparr> sr_status_code = 503, sr_results = [] \<rparr> \<noteq> 200 \<or>
           sr_results \<lparr> sr_status_code = 503, sr_results = [] \<rparr> = [] \<or>
           (\<forall>c \<in> set (sr_results \<lparr> sr_status_code = 503, sr_results = [] \<rparr>).
               lower (contact_email c) \<noteq> lower (ci_email client_ana))"
    by simp
  from search_miss_creates_contact [OF a b c]
  show ?thesis
    by (auto simp: env_search_down_def client_ana_def tipo_to_add_def recognized_tags_def)
qed




section \<open>Properties of \<open>confirm_presupuesto\<close>\<close>

lemma update_warehouse_returns: "fst (update_warehouse cfg env pid) = Inr ()"
  by (cases "cf_warehouse_write env") (simp_all add: update_warehouse_def run_defs)

lemma update_warehouse_no_confirm: "Erp (ActionConfirm i) \<notin> set (snd (update_warehouse cfg env pid))"
  by (cases "cf_warehouse_write env") (simp_all add: update_warehouse_def run_defs)

lemma confirm_order_run:
  "fst (confirm_order env pid) = Inr ()
   \<and> hd (snd (confirm_order env pid)) = Erp (ActionConfirm pid)
   \<and> Erp (ActionConfirm pid) \<in> set (snd (confirm_order env pid))
   \<and> (\<forall>b. cf_action_confirm env = Inr b \<longrightarrow>
         snd (confirm_order env pid) = [Erp (ActionConfirm pid), Flash Msg_order_confirmed FSuccess])
   \<and> (\<forall>e. cf_action_confirm env = Inl e \<longrightarrow>
         snd (confirm_order env pid) =
           [Erp (ActionConfirm pid), Log ERROR (Log_confirm_error e), Flash (Msg_order_confirm_error e) FError])"
  by (cases "cf_action_confirm env") (simp_all add: confirm_order_def run_defs)

lemma sync_clientify_returns:
  assumes "fst (create_or_update_client_in_clientify cfg (cf_clientify env) ci) = Inr r"
  shows "fst (sync_clientify cfg env ci amount) = Inr ()"
proof (cases "CLIENTIFY_ENABLED cfg")
  case False
  then show ?thesis by (simp add: sync_clientify_def run_defs)
next
  case True
  obtain t cid where r: "r = (t, cid)" by (cases r)
  show ?thesis
    using True assms unfolding r sync_clientify_def
    by (simp add: bind_Inr try_except_unit emit_def)
qed

lemma sync_clientify_raises:
  assumes "CLIENTIFY_ENABLED cfg"
      and "fst (create_or_update_client_in_clientify cfg (cf_clientify env) ci) = Inl e"
  shows "sync_clientify cfg env ci amount =
           (Inl e, snd (create_or_update_client_in_clientify cfg (cf_clientify env) ci))"
  using assms by (simp add: sync_clientify_def bind_Inl)


lemma confirm_presupuesto_reaches_sync:
  assumes "cf_auth env = Inr (Some uid)" and "uid \<noteq> 0"
      and "cf_order_read env = Inr (order # orders)"
      and "or_partner_id order = Some partner_id"
      and "cf_partner_read env = Inr (partner # partners)"
  shows "confirm_presupuesto cfg env pid =
           (case seq (update_warehouse cfg env pid)
                   (seq (sync_clientify cfg env (client_info_of cfg partner)
                           (case or_amount_total order of None \<Rightarrow> 0 | Some a \<Rightarrow> a))
                      (seq (confirm_order env pid) (ret (Redirect (Payment pid))))) of
              (r, tr) \<Rightarrow>
                (r, Erp Authenticate # Erp (OrderRead pid) # Erp (PartnerRead partner_id) # tr))"
  using assms
  by (simp add: confirm_presupuesto_def odoo_authenticate_def truthy_def Let_def
        bind_def call_def try_except_def split: prod.splits)

lemma confirm_presupuesto_upsert_returns:
  assumes "cf_auth env = Inr (Some uid)" and "uid \<noteq> 0"
      and "cf_order_read env = Inr (order # orders)"
      and "or_partner_id order = Some partner_id"
      and "cf_partner_read env = Inr (partner # partners)"
      and "fst (create_or_update_client_in_clientify cfg (cf_clientify env)
                  (client_info_of cfg partner)) = Inr r"
  shows "fst (confirm_presupuesto cfg env pid) = Inr (Redirect (Payment pid))
         \<and> Erp (ActionConfirm pid) \<in> set (snd (confirm_presupuesto cfg env pid))
         \<and> (\<forall>b. cf_action_confirm env = Inr b \<longrightarrow>
               Flash Msg_order_confirmed FSuccess \<in> set (snd (confirm_presupuesto cfg env pid)))"
proof -
  let ?amount = "case or_amount_total order of None \<Rightarrow> 0 | Some a \<Rightarrow> a"
  have s: "fst (sync_clientify cfg env (client_info_of cfg partner) ?amount) = Inr ()"
    using assms(6) by (rule sync_clientify_returns)
  have c: "fst (confirm_order env pid) = Inr ()" by (simp add: confirm_order_run)
  show ?thesis
    unfolding confirm_presupuesto_reaches_sync [OF assms(1-5)]
    using confirm_order_run [of env pid]
    by (auto simp: seq_Inr update_warehouse_returns s c ret_def)
qed

lemma confirm_presupuesto_upsert_raises:
  assumes "cf_auth env = Inr (Some uid)" and "uid \<noteq> 0"
      and "cf_order_read env = Inr (order # orders)"
      and "or_partner_id order = Some partner_id"
      and "cf_partner_read env = Inr (partner # partners)"
      and "CLIENTIFY_ENABLED cfg"
      and "search_reply (cf_clientify env) = Inl e"
  shows "fst (confirm_presupuesto cfg env pid) = Inl e
         \<and> Erp (ActionConfirm pid) \<notin> set (snd (confirm_presupuesto cfg env pid))
         \<and> snd (confirm_presupuesto cfg env pid) =
             Erp Authenticate # Erp (OrderRead pid) # Erp (PartnerRead partner_id) #
             snd (update_warehouse cfg env pid) @
             [Http (SearchContacts (pr_email partner))]"
proof -
  let ?amount = "case or_amount_total order of None \<Rightarrow> 0 | Some a \<Rightarrow> a"
  let ?ci = "client_info_of cfg partner"
  have u: "create_or_update_client_in_clientify cfg (cf_clientify env) ?ci =
             (Inl e, [Http (SearchContacts (ci_email ?ci))])"
    using assms(6,7) by (simp add: create_or_update_client_in_clientify_def run_defs)
  have s: "sync_clientify cfg env ?ci ?amount = (Inl e, [Http (SearchContacts (ci_email ?ci))])"
    using sync_clientify_raises [OF assms(6), of env ?ci e ?amount] u by simp
  have m: "ci_email ?ci = pr_email partner" by (simp add: client_info_of_def)
  show ?thesis
    unfolding confirm_presupuesto_reaches_sync [OF assms(1-5)]
    using update_warehouse_no_confirm [of pid cfg env pid]
    by (simp add: seq_Inr seq_Inl update_warehouse_returns s m)
qed

text \<open>
  Claim C1 asks that every failure of the CRM step is logged and not propagated,
  and that \<open>action_confirm\<close> is still attempted. This holds when the helper
  returns, whatever it returns and whatever the update of the order value does
  (\<open>confirm_presupuesto_upsert_returns\<close>). It does not hold when a request of the
  helper raises: the call of the helper is outside the \<open>try\<close> block, so the
  handler raises too (\<open>confirm_presupuesto_upsert_raises\<close>). Here the CRM cannot
  be reached: the run ends with the transport error right after the search
  request, nothing is logged about it, and \<open>action_confirm\<close> is never called.
\<close>

theorem confirm_presupuesto_crm_unreachable:
  "confirm_presupuesto default_config env_crm_unreachable 42 =
     (Inl TransportError,
      [Erp Authenticate, Erp (OrderRead 42), Erp (PartnerRead 5),
       Erp (OrderWriteWarehouse 42 19), Log INFO Log_warehouse_updated,
       Http (SearchContacts ''ana@lab.es'')])"
  by (simp add: confirm_presupuesto_def odoo_authenticate_def update_warehouse_def
        sync_clientify_def create_or_update_client_in_clientify_def client_info_of_def
        env_crm_unreachable_def partner_ana_def default_config_def truthy_def run_defs Let_def)

section \<open>Properties of \<open>save\<close>\<close>

text \<open>Every record that \<open>save\<close> writes or creates is the payload built from the form.\<close>

lemma save_payload:
  assumes "Erp (PartnerWrite ids vals) \<in> set (snd (save cfg env form))
           \<or> Erp (PartnerCreate vals) \<in> set (snd (save cfg env form))"
  shows "\<exists>state_id country_id. vals = partner_payload cfg form state_id country_id"
proof (cases "sv_auth env")
  case (Inl e)
  with assms show ?thesis by (auto simp: save_def run_defs Let_def split: if_splits)
next
  case auth: (Inr uid)
  show ?thesis
  proof (cases "sv_state_search env")
    case (Inl e)
    with assms auth show ?thesis by (auto simp: save_def run_defs Let_def split: if_splits)
  next
    case st: (Inr state_id)
    show ?thesis
    proof (cases "sv_country_search env")
      case (Inl e)
      with assms auth st show ?thesis by (auto simp: save_def run_defs Let_def split: if_splits)
    next
      case co: (Inr country_id)
      show ?thesis
      proof (cases "sv_partner_search env")
        case (Inl e)
        with assms auth st co show ?thesis
          by (auto simp: save_def run_defs Let_def split: if_splits)
      next
        case ps: (Inr partner_ids)
        show ?thesis
        proof (cases partner_ids)
          case Nil
          with assms auth st co ps show ?thesis
            by (cases "sv_create env")
               (auto simp: save_def run_defs Let_def split: if_splits option.splits)
        next
          case (Cons a list)
          with assms auth st co ps show ?thesis
            by (cases "sv_write env") (auto simp: save_def run_defs Let_def split: if_splits)
        qed
      qed
    qed
  qed
qed


lemma strip_examples:
  "strip ''PT123456'' = ''PT123456''" "strip ''12345'' = ''12345''"
  "strip ''PT123456 '' = ''PT123456''" "strip ''Ana'' = ''Ana''" "strip ''ana@lab.es'' = ''ana@lab.es''"
  "strip ''Spain'' = ''Spain''" "strip ''mayorista'' = ''mayorista''" "strip ''mayorista '' = ''mayorista''"
  "strip ''otros'' = ''otros''" "strip [] = []"
  by (simp_all add: strip_def isspace_def)

lemma validate_email_example: "validate_email (Some ''ana@lab.es'')"
  by code_simp

lemma form_vat_fields:
  "form_get (form_vat v t) ''name'' = ''Ana''" "form_get (form_vat v t) ''vat'' = v"
  "form_get (form_vat v t) ''email'' = ''ana@lab.es''" "form_get (form_vat v t) ''state'' = []"
  "form_get (form_vat v t) ''country'' = ''Spain''" "form_get (form_vat v t) ''customer_tag'' = t"
  by (simp_all add: form_get_def form_vat_def)

lemma save_new_customer_trace:
  "save cfg env_new_customer (form_vat v t) =
     (Inr (Redirect (CreatePresupuesto (strip v))),
      [Erp Authenticate, Erp (StateSearch []), Erp (CountrySearch ''Spain''),
       Erp (PartnerSearch (strip v) ''ana@lab.es''),
       Erp (PartnerCreate (partner_payload cfg (form_vat v t) [] [68])),
       SessionSet 901])"
  by (simp add: save_def run_defs Let_def form_vat_fields strip_examples validate_email_example
        env_new_customer_def truthy_def)

text \<open>
  Claim C2, as amended. In every run of \<open>save\<close> that writes or creates a customer
  record, the tax ID of the record is the submitted VAT string with its
  surrounding whitespace removed if and only if that trimmed string is
  non-empty, at least 4 characters long and starts with two alphabetic
  characters; otherwise the tax ID is cleared.
\<close>

theorem save_persists_trimmed_tax_id:
  assumes "Erp (PartnerWrite ids vals) \<in> set (snd (save cfg env form))
           \<or> Erp (PartnerCreate vals) \<in> set (snd (save cfg env form))"
      and "vat = strip (form_get form ''vat'')"
  shows "(pv_vat vals = Some vat \<longleftrightarrow> vat \<noteq> [] \<and> 4 \<le> length vat \<and> isalpha (take 2 vat))
         \<and> (pv_vat vals \<noteq> Some vat \<longrightarrow> pv_vat vals = None)"
proof -
  from save_payload [OF assms(1)] obtain state_id country_id
    where "vals = partner_payload cfg form state_id country_id" by blast
  then show ?thesis by (simp add: partner_payload_def Let_def assms(2))
qed

text \<open>
  Two runs: \<open>PT123456\<close> is persisted unchanged, \<open>12345\<close> is persisted as absent.
\<close>

theorem save_persists_trimmed_tax_id_witness:
  "Erp (PartnerCreate (partner_payload default_config (form_vat ''PT123456'' ''otros'') [] [68]))
     \<in> set (snd (save default_config env_new_customer (form_vat ''PT123456'' ''otros'')))
   \<and> pv_vat (partner_payload default_config (form_vat ''PT123456'' ''otros'') [] [68]) = Some ''PT123456''
   \<and> Erp (PartnerCreate (partner_payload default_config (form_vat ''12345'' ''otros'') [] [68]))
     \<in> set (snd (save default_config env_new_customer (form_vat ''12345'' ''otros'')))
   \<and> pv_vat (partner_payload default_config (form_vat ''12345'' ''otros'') [] [68]) = None"
proof -
  let ?p = "\<lambda>v. partner_payload default_config (form_vat v ''otros'') [] [68]"
  have ev: "Erp (PartnerWrite [] (?p v)) \<in> set (snd (save default_config env_new_customer (form_vat v ''otros'')))
            \<or> Erp (PartnerCreate (?p v)) \<in> set (snd (save default_config env_new_customer (form_vat v ''otros'')))"
    for v by (simp add: save_new_customer_trace)
  have a: "''PT123456'' = strip (form_get (form_vat ''PT123456'' ''otros'') ''vat'')"
    by (simp add: form_vat_fields strip_examples)
  have b: "''12345'' = strip (form_get (form_vat ''12345'' ''otros'') ''vat'')"
    by (simp add: form_vat_fields strip_examples)
  have c: "isalpha (take 2 ''PT123456'')" "\<not> isalpha (take 2 ''12345'')"
    by (simp_all add: isalpha_def isalpha_char_def)
  from save_persists_trimmed_tax_id [OF ev a] save_persists_trimmed_tax_id [OF ev b] c
  show ?thesis by (simp add: save_new_customer_trace)
qed

text \<open>
  The claim as first stated compares with the submitted string itself. A
  submitted string with a trailing space meets its three conditions and is
  neither persisted unchanged nor cleared: the trimmed string is persisted.
\<close>

theorem save_tax_id_trailing_space_counterexample:
  "form_get (form_vat ''PT123456 '' ''otros'') ''vat'' = ''PT123456 ''
   \<and> ''PT123456 '' \<noteq> [] \<and> 4 \<le> length ''PT123456 '' \<and> isalpha (take 2 ''PT123456 '')
   \<and> Erp (PartnerCreate (partner_payload default_config (form_vat ''PT123456 '' ''otros'') [] [68]))
       \<in> set (snd (save default_config env_new_customer (form_vat ''PT123456 '' ''otros'')))
   \<and> pv_vat (partner_payload default_config (form_vat ''PT123456 '' ''otros'') [] [68]) = Some ''PT123456''
   \<and> pv_vat (partner_payload default_config (form_vat ''PT123456 '' ''otros'') [] [68]) \<noteq> Some ''PT123456 ''"
  by (simp add: save_new_customer_trace form_vat_fields partner_payload_def Let_def strip_examples
        isalpha_def isalpha_char_def)

text \<open>
  Claim C4, as amended. When the configured tag identifiers of the four other
  classifications differ from the one of \<open>mayorista\<close> (as the defaults do), every
  customer record that \<open>save\<close> writes or creates carries the mayorista price list
  if the submitted classification, trimmed, is \<open>mayorista\<close>, and the default price
  list for every other value, unknown and empty ones included.
\<close>

theorem save_pricelist_by_classification:
  assumes "Erp (PartnerWrite ids vals) \<in> set (snd (save cfg env form))
           \<or> Erp (PartnerCreate vals) \<in> set (snd (save cfg env form))"
      and "TAG_MAYORISTA_ID cfg \<notin> set [TAG_CLINICA_DENTAL_ID cfg, TAG_LABORATORIO_ID cfg,
                                        TAG_ESTUDIANTE_ID cfg, TAG_OTROS_ID cfg]"
  shows "pv_property_product_pricelist vals =
           (if strip (form_get form ''customer_tag'') = ''mayorista''
            then PRICELIST_MAYORISTA_ID cfg else PRICELIST_DEFAULT_ID cfg)"
proof -
  from save_payload [OF assms(1)] obtain state_id country_id
    where "vals = partner_payload cfg form state_id country_id" by blast
  then show ?thesis using assms(2) by (simp add: partner_payload_def Let_def tag_mapping_def)
qed

text \<open>Two runs under the default configuration: \<open>mayorista\<close> and the empty classification.\<close>

theorem save_pricelist_by_classification_witness:
  "Erp (PartnerCreate (partner_payload default_config (form_vat ''PT123456'' ''mayorista'') [] [68]))
     \<in> set (snd (save default_config env_new_customer (form_vat ''PT123456'' ''mayorista'')))
   \<and> pv_property_product_pricelist
         (partner_payload default_config (form_vat ''PT123456'' ''mayorista'') [] [68]) = 32
   \<and> Erp (PartnerCreate (partner_payload default_config (form_vat ''PT123456'' []) [] [68]))
     \<in> set (snd (save default_config env_new_customer (form_vat ''PT123456'' [])))
   \<and> pv_property_product_pricelist
         (partner_payload default_config (form_vat ''PT123456'' []) [] [68]) = 33"
proof -
  let ?p = "\<lambda>t. partner_payload default_config (form_vat ''PT123456'' t) [] [68]"
  have ev: "Erp (PartnerWrite [] (?p t)) \<in> set (snd (save default_config env_new_customer (form_vat ''PT123456'' t)))
            \<or> Erp (PartnerCreate (?p t)) \<in> set (snd (save default_config env_new_customer (form_vat ''PT123456'' t)))"
    for t by (simp add: save_new_customer_trace)
  have d: "TAG_MAYORISTA_ID default_config \<notin> set [TAG_CLINICA_DENTAL_ID default_config,
             TAG_LABORATORIO_ID default_config, TAG_ESTUDIANTE_ID default_config, TAG_OTROS_ID default_config]"
    by (simp add: default_config_def)
  from save_pricelist_by_classification [OF ev d, of "''mayorista''"]
       save_pricelist_by_classification [OF ev d, of "[]"]
  show ?thesis
    by (simp add: save_new_customer_trace form_vat_fields strip_examples default_config_def)
qed

text \<open>
  The claim as first stated fails in two ways. A submitted value other than
  \<open>mayorista\<close> that is trimmed to it gets the mayorista price list; and the price
  list is chosen by comparing tag identifiers, so with \<open>TAG_OTROS_ID\<close> configured
  equal to \<open>TAG_MAYORISTA_ID\<close> the classification \<open>otros\<close> gets it too.
\<close>

theorem save_pricelist_counterexample:
  "''mayorista '' \<noteq> ''mayorista''
   \<and> Erp (PartnerCreate (partner_payload default_config (form_vat ''PT123456'' ''mayorista '') [] [68]))
       \<in> set (snd (save default_config env_new_customer (form_vat ''PT123456'' ''mayorista '')))
   \<and> pv_property_product_pricelist
         (partner_payload default_config (form_vat ''PT123456'' ''mayorista '') [] [68])
       = PRICELIST_MAYORISTA_ID default_config
   \<and> PRICELIST_MAYORISTA_ID default_config \<noteq> PRICELIST_DEFAULT_ID default_config
   \<and> Erp (PartnerCreate (partner_payload (default_config \<lparr> TAG_OTROS_ID := 2 \<rparr>)
                              (form_vat ''PT123456'' ''otros'') [] [68]))
       \<in> set (snd (save (default_config \<lparr> TAG_OTROS_ID := 2 \<rparr>) env_new_customer
                        (form_vat ''PT123456'' ''otros'')))
   \<and> pv_property_product_pricelist
         (partner_payload (default_config \<lparr> TAG_OTROS_ID := 2 \<rparr>) (form_vat ''PT123456'' ''otros'') [] [68])
       = PRICELIST_MAYORISTA_ID (default_config \<lparr> TAG_OTROS_ID := 2 \<rparr>)
   \<and> PRICELIST_MAYORISTA_ID (default_config \<lparr> TAG_OTROS_ID := 2 \<rparr>)
       \<noteq> PRICELIST_DEFAULT_ID (default_config \<lparr> TAG_OTROS_ID := 2 \<rparr>)"
  by (simp add: save_new_customer_trace form_vat_fields partner_payload_def Let_def strip_examples
        tag_mapping_def default_config_def)

text \<open>
  Claim C9. When the partner search returns one identifier or more, a single
  \<open>write\<close> carries the payload to the whole list of matched identifiers, and the
  session is set once, to the first of them.
\<close>

theorem save_writes_all_matched_partners:
  assumes "strip (form_get form ''name'') \<noteq> []"
      and "strip (form_get form ''email'') = [] \<or> validate_email (Some (strip (form_get form ''email'')))"
      and "sv_auth env = Inr (Some uid)" and "uid \<noteq> 0"
      and "sv_state_search env = Inr state_id"
      and "sv_country_search env = Inr country_id"
      and "sv_partner_search env = Inr (first_id # more_ids)"
      and "sv_write env = Inr written"
  shows "save cfg env form =
           (Inr (Redirect (CreatePresupuesto (strip (form_get form ''vat'')))),
            [Erp Authenticate,
             Erp (StateSearch (strip (form_get form ''state''))),
             Erp (CountrySearch (strip (form_get form ''country''))),
             Erp (PartnerSearch (strip (form_get form ''vat'')) (strip (form_get form ''email''))),
             Erp (PartnerWrite (first_id # more_ids) (partner_payload cfg form state_id country_id)),
             SessionSet first_id,
             Flash Msg_customer_updated FSuccess])"
  using assms by (auto simp: save_def run_defs Let_def truthy_def)

text \<open>A run where the search returns the partners 11 and 12.\<close>

theorem save_writes_all_matched_partners_witness:
  "save default_config env_two_partners (form_vat ''PT123456'' ''otros'') =
     (Inr (Redirect (CreatePresupuesto ''PT123456'')),
      [Erp Authenticate, Erp (StateSearch []), Erp (CountrySearch ''Spain''),
       Erp (PartnerSearch ''PT123456'' ''ana@lab.es''),
       Erp (PartnerWrite [11, 12] (partner_payload default_config (form_vat ''PT123456'' ''otros'') [] [68])),
       SessionSet 11,
       Flash Msg_customer_updated FSuccess])"
proof -
  let ?f = "form_vat ''PT123456'' ''otros''"
  have a: "strip (form_get ?f ''name'') \<noteq> []" by (simp add: form_vat_fields strip_examples)
  have b: "strip (form_get ?f ''email'') = [] \<or> validate_email (Some (strip (form_get ?f ''email'')))"
    by (simp add: form_vat_fields strip_examples validate_email_example)
  have c: "sv_auth env_two_partners = Inr (Some 2)" "(2::int) \<noteq> 0"
    "sv_state_search env_two_partners = Inr []" "sv_country_search env_two_partners = Inr [68]"
    "sv_partner_search env_two_partners = Inr (11 # [12])" "sv_write env_two_partners = Inr True"
    by (simp_all add: env_two_partners_def)
  from save_writes_all_matched_partners [OF a b c, of default_config]
  show ?thesis by (simp add: form_vat_fields strip_examples)
qed

section \<open>Properties of \<open>presupuesto_details\<close>\<close>

lemma foldl_prices_miss:
  "\<forall>(k, v) \<in> set kvs. lower k \<noteq> c \<Longrightarrow> foldl (\<lambda>m (k, v). m(lower k \<mapsto> v)) m0 kvs c = m0 c"
  by (induction kvs arbitrary: m0) auto

lemma foldl_prices_hit:
  "(k, v) \<in> set kvs \<Longrightarrow> lower k = c \<Longrightarrow> \<forall>(k', v') \<in> set kvs. lower k' = c \<longrightarrow> v' = v
     \<Longrightarrow> foldl (\<lambda>m (k, v). m(lower k \<mapsto> v)) m0 kvs c = Some v"
proof (induction kvs arbitrary: m0 rule: rev_induct)
  case Nil
  then show ?case by simp
next
  case (snoc x xs)
  then show ?case by (cases x) (auto split: if_splits)
qed

lemma add_line_shape:
  assumes "Erp (LineCreate lv) \<in> set (snd (add_line env pid form))"
  shows "lv_order_id lv = pid
       \<and> product_qty_of form = (Inr (lv_product_uom_qty lv), [])
       \<and> (\<exists>ps. pd_product_search env = Inr (lv_product_id lv # ps))
       \<and> (\<forall>table. pd_price_file env = Inr table \<longrightarrow>
             lv_price_unit lv =
               dict_get (custom_prices_lower table) (lower (strip (form_get form ''product_code''))))
       \<and> (\<forall>e. pd_price_file env = Inl e \<longrightarrow> e = FileNotFoundError \<and> lv_price_unit lv = None)"
proof -
  obtain q where q: "product_qty_of form = (Inr q, [])"
    using assms
    by (cases "form ''product_qty''"; cases "py_int (the (form ''product_qty''))")
       (auto simp: add_line_def product_qty_of_def run_defs Let_def)
  show ?thesis
  proof (cases "pd_product_search env")
    case (Inl e)
    with assms q show ?thesis
      by (cases "pd_price_file env")
         (auto simp: add_line_def run_defs Let_def split: if_splits)
  next
    case (Inr ids)
    show ?thesis
    proof (cases ids)
      case Nil
      with assms q Inr show ?thesis
        by (cases "pd_price_file env")
           (auto simp: add_line_def run_defs Let_def split: if_splits)
    next
      case (Cons p ps)
      with assms q Inr show ?thesis
        by (cases "pd_price_file env"; cases "pd_line_create env")
           (auto simp: add_line_def run_defs Let_def dict_get_def split: if_splits)
    qed
  qed
qed

lemma presupuesto_details_line:
  assumes "Erp (LineCreate lv) \<in> set (snd (presupuesto_details env pid method form))"
  shows "method = POST \<and> Erp (LineCreate lv) \<in> set (snd (add_line env pid form))"
proof (cases "pd_auth env")
  case (Inl e)
  with assms show ?thesis by (simp add: presupuesto_details_def run_defs)
next
  case (Inr uid)
  obtain r tr where a: "add_line env pid form = (r, tr)" by (cases "add_line env pid form")
  show ?thesis
    using assms Inr a
    by (cases "pd_order_read env"; cases "pd_lines env"; cases r)
       (auto simp: presupuesto_details_def run_defs split: if_splits list.splits)
qed


lemma line_created_shape:
  assumes "Erp (LineCreate lv) \<in> set (snd (presupuesto_details env pid method form))"
  shows "method = POST \<and> lv_order_id lv = pid
       \<and> product_qty_of form = (Inr (lv_product_uom_qty lv), [])
       \<and> (\<exists>ps. pd_product_search env = Inr (lv_product_id lv # ps))
       \<and> (\<forall>table. pd_price_file env = Inr table \<longrightarrow>
             lv_price_unit lv =
               dict_get (custom_prices_lower table) (lower (strip (form_get form ''product_code''))))
       \<and> (\<forall>e. pd_price_file env = Inl e \<longrightarrow> e = FileNotFoundError \<and> lv_price_unit lv = None)"
  using presupuesto_details_line [OF assms] add_line_shape [of lv env pid form] by blast

lemma product_qty_of_cases:
  "product_qty_of form = (Inr q, []) \<longleftrightarrow>
     (form ''product_qty'' = None \<and> q = 1) \<or> (\<exists>s. form ''product_qty'' = Some s \<and> py_int s = Some q)"
  by (auto simp: product_qty_of_def ret_def raise_def split: option.splits)

lemma py_int_examples:
  "py_int ''3'' = Some 3" "py_int ''abc'' = None" "py_int [] = None"
  "py_int '' -1_0 '' = Some (- 10)" "py_int ''1__0'' = None" "py_int ''3.0'' = None"
  "py_int [CHR 0x1C, CHR ''3''] = None" "py_int [CHR 0xA0, CHR ''3'', CHR 0x85] = Some 3"
  by (simp_all add: py_int_def c_isspace_def space_to_ascii_def unsigned_int_def int_literal_val_def
        isdigit_char_def max_str_digits_def)

lemma lower_strip_examples:
  "lower (strip ''P100'') = ''p100''" "lower ''p100'' = ''p100''" "lower (strip ''x200'') = ''x200''"
  by code_simp+

lemma add_line_run:
  assumes "lower (strip (form_get form ''product_code'')) = code" and "code \<noteq> []"
      and "product_qty_of form = (Inr qty, [])"
      and "pd_price_file env = Inr table \<or> (pd_price_file env = Inl FileNotFoundError \<and> table = [])"
      and "pd_product_search env = Inr (product_id # more_ids)"
      and "pd_line_create env = Inr new_line_id"
  shows "add_line env pid form =
           (Inr (),
            [OpenFile ''price_list_feira.json'', Erp (ProductSearch code),
             Erp (LineCreate \<lparr> lv_order_id = pid, lv_product_id = product_id,
                                lv_product_uom_qty = qty,
                                lv_price_unit = dict_get (custom_prices_lower table) code \<rparr>),
             if truthy new_line_id then Flash Msg_product_added FSuccess
             else Flash Msg_product_add_error FError])"
proof -
  have e: "dict_get (custom_prices_lower []) code = None"
    by (simp add: dict_get_def custom_prices_lower_def)
  from assms(4) show ?thesis
  proof
    assume "pd_price_file env = Inr table"
    with assms(1,2,3,5,6) show ?thesis
      by (simp add: add_line_def run_defs Let_def)
  next
    assume "pd_price_file env = Inl FileNotFoundError \<and> table = []"
    with assms(1,2,3,5,6) e show ?thesis
      by (simp add: add_line_def run_defs Let_def dict_get_def)
  qed
qed

text \<open>
  Claim C6. A POST with a product code that the ERP finds creates exactly one
  line, right after the product search: for the order, the first product found
  and the submitted quantity. Its unit price is the override found under the
  trimmed, lower-cased code in the table with lower-cased keys, so the lookup
  does not depend on the case of the code or of the keys; when no key equals the
  code up to case, or the table file is missing, the line is created all the same
  and carries no unit price, so that the catalog price applies. With the table
  \<open>{"p100": 9.99}\<close>, the code \<open>P100\<close> and the quantity \<open>3\<close>, the line carries unit price
  9.99 and quantity 3.
\<close>

theorem line_price_override:
  assumes "pd_auth env = Inr uid" and "truthy uid"
      and "lower (strip (form_get form ''product_code'')) = code" and "code \<noteq> []"
      and "(case form ''product_qty'' of None \<Rightarrow> Some 1 | Some s \<Rightarrow> py_int s) = Some qty"
      and "pd_price_file env = Inr table \<or> (pd_price_file env = Inl FileNotFoundError \<and> table = [])"
      and "pd_product_search env = Inr (product_id # more_ids)"
      and "pd_line_create env = Inr new_line_id"
  shows "snd (presupuesto_details env pid POST form) =
           [Erp Authenticate, OpenFile ''price_list_feira.json'', Erp (ProductSearch code),
            Erp (LineCreate \<lparr> lv_order_id = pid, lv_product_id = product_id,
                               lv_product_uom_qty = qty,
                               lv_price_unit = dict_get (custom_prices_lower table) code \<rparr>),
            if truthy new_line_id then Flash Msg_product_added FSuccess
            else Flash Msg_product_add_error FError,
            Erp (OrderRead pid)]
           @ (case pd_order_read env of
                Inr (order # _) \<Rightarrow> [Erp (LinesSearchRead pid)] | _ \<Rightarrow> [])
       \<and> (\<forall>k p. (k, Some p) \<in> set table \<and> lower k = code
               \<and> (\<forall>(k', v') \<in> set table. lower k' = code \<longrightarrow> v' = Some p)
             \<longrightarrow> dict_get (custom_prices_lower table) code = Some p)
       \<and> ((\<forall>(k, v) \<in> set table. lower k \<noteq> code)
             \<longrightarrow> dict_get (custom_prices_lower table) code = None)
       \<and> (table = [(''p100'', Some 9.99)] \<and> form ''product_code'' = Some ''P100''
              \<and> form ''product_qty'' = Some ''3''
             \<longrightarrow> code = ''p100'' \<and> qty = 3
                 \<and> dict_get (custom_prices_lower table) code = Some 9.99)"
proof (intro conjI allI impI)
  have q: "product_qty_of form = (Inr qty, [])"
    using assms(5) by (auto simp: product_qty_of_def ret_def split: option.splits)
  note run = add_line_run [OF assms(3,4) q assms(6,7,8), of pid]
  show "snd (presupuesto_details env pid POST form) =
           [Erp Authenticate, OpenFile ''price_list_feira.json'', Erp (ProductSearch code),
            Erp (LineCreate \<lparr> lv_order_id = pid, lv_product_id = product_id,
                               lv_product_uom_qty = qty,
                               lv_price_unit = dict_get (custom_prices_lower table) code \<rparr>),
            if truthy new_line_id then Flash Msg_product_added FSuccess
            else Flash Msg_product_add_error FError,
            Erp (OrderRead pid)]
           @ (case pd_order_read env of
                Inr (order # _) \<Rightarrow> [Erp (LinesSearchRead pid)] | _ \<Rightarrow> [])"
    using assms(1,2)
    by (cases "pd_order_read env"; cases "pd_lines env")
       (simp_all add: presupuesto_details_def run run_defs split: list.splits)
next
  fix k p
  assume "(k, Some p) \<in> set table \<and> lower k = code
          \<and> (\<forall>(k', v') \<in> set table. lower k' = code \<longrightarrow> v' = Some p)"
  then have "custom_prices_lower table code = Some (Some p)"
    unfolding custom_prices_lower_def using foldl_prices_hit [of k "Some p" table code Map.empty]
    by blast
  then show "dict_get (custom_prices_lower table) code = Some p" by (simp add: dict_get_def)
next
  assume "\<forall>(k, v) \<in> set table. lower k \<noteq> code"
  then have "custom_prices_lower table code = None"
    unfolding custom_prices_lower_def using foldl_prices_miss [of table code Map.empty] by simp
  then show "dict_get (custom_prices_lower table) code = None" by (simp add: dict_get_def)
next
  assume a: "table = [(''p100'', Some 9.99)] \<and> form ''product_code'' = Some ''P100''
             \<and> form ''product_qty'' = Some ''3''"
  then show "code = ''p100''"
    using assms(3) by (simp add: form_get_def lower_strip_examples)
  from a show "qty = 3" using assms(5) by (simp add: py_int_examples)
  from a \<open>code = ''p100''\<close> show "dict_get (custom_prices_lower table) code = Some 9.99"
    by (simp add: dict_get_def custom_prices_lower_def lower_strip_examples)
qed

text \<open>
  Two runs: the example of the claim, and a code without an override and no
  quantity field, for which the line is created with no unit price and quantity 1.
\<close>

theorem line_price_override_witness:
  "snd (presupuesto_details env_catalog 42 POST (form_line ''P100'' (Some ''3''))) =
     [Erp Authenticate, OpenFile ''price_list_feira.json'', Erp (ProductSearch ''p100''),
      Erp (LineCreate \<lparr> lv_order_id = 42, lv_product_id = 501, lv_product_uom_qty = 3,
                         lv_price_unit = Some 9.99 \<rparr>),
      Flash Msg_product_added FSuccess, Erp (OrderRead 42), Erp (LinesSearchRead 42)]
   \<and> snd (presupuesto_details env_catalog 42 POST (form_line ''x200'' None)) =
     [Erp Authenticate, OpenFile ''price_list_feira.json'', Erp (ProductSearch ''x200''),
      Erp (LineCreate \<lparr> lv_order_id = 42, lv_product_id = 501, lv_product_uom_qty = 1,
                         lv_price_unit = None \<rparr>),
      Flash Msg_product_added FSuccess, Erp (OrderRead 42), Erp (LinesSearchRead 42)]"
proof -
  let ?table = "[(''p100'', Some (9.99 :: rat))]"
  have au: "pd_auth env_catalog = Inr (Some 2)" "truthy (Some 2)"
    by (simp_all add: env_catalog_def truthy_def)
  have tb: "pd_price_file env_catalog = Inr ?table
              \<or> (pd_price_file env_catalog = Inl FileNotFoundError \<and> ?table = [])"
    by (simp add: env_catalog_def)
  have se: "pd_product_search env_catalog = Inr (501 # [502])" by (simp add: env_catalog_def)
  have cr: "pd_line_create env_catalog = Inr (Some 9001)" by (simp add: env_catalog_def)
  have od: "pd_order_read env_catalog = Inr [\<lparr> or_amount_total = Some 120, or_partner_id = Some 5 \<rparr>]"
    by (simp add: env_catalog_def)
  have c1: "lower (strip (form_get (form_line ''P100'' (Some ''3'')) ''product_code'')) = ''p100''"
           "''p100'' \<noteq> []"
    by (simp_all add: form_get_def form_line_def lower_strip_examples)
  have q1: "(case form_line ''P100'' (Some ''3'') ''product_qty'' of
               None \<Rightarrow> Some 1 | Some s \<Rightarrow> py_int s) = Some 3"
    by (simp add: form_line_def py_int_examples)
  have c2: "lower (strip (form_get (form_line ''x200'' None) ''product_code'')) = ''x200''"
           "''x200'' \<noteq> []"
    by (simp_all add: form_get_def form_line_def lower_strip_examples)
  have q2: "(case form_line ''x200'' None ''product_qty'' of
               None \<Rightarrow> Some 1 | Some s \<Rightarrow> py_int s) = Some 1"
    by (simp add: form_line_def)
  have f1: "form_line ''P100'' (Some ''3'') ''product_code'' = Some ''P100''"
           "form_line ''P100'' (Some ''3'') ''product_qty'' = Some ''3''"
    by (simp_all add: form_line_def)
  have miss: "\<forall>(k, v) \<in> set ?table. lower k \<noteq> ''x200''"
    by (simp add: lower_strip_examples)
  note t1 = line_price_override [OF au c1 q1 tb se cr, of 42]
  note t2 = line_price_override [OF au c2 q2 tb se cr, of 42]
  from t1 f1 have p1: "dict_get (custom_prices_lower ?table) ''p100'' = Some 9.99" by blast
  from t2 miss have p2: "dict_get (custom_prices_lower ?table) ''x200'' = None" by blast
  from t1 have "snd (presupuesto_details env_catalog 42 POST (form_line ''P100'' (Some ''3''))) =
     [Erp Authenticate, OpenFile ''price_list_feira.json'', Erp (ProductSearch ''p100''),
      Erp (LineCreate \<lparr> lv_order_id = 42, lv_product_id = 501, lv_product_uom_qty = 3,
                         lv_price_unit = Some 9.99 \<rparr>),
      Flash Msg_product_added FSuccess, Erp (OrderRead 42), Erp (LinesSearchRead 42)]"
    unfolding p1 by (simp add: od truthy_def)
  moreover
  from t2 have "snd (presupuesto_details env_catalog 42 POST (form_line ''x200'' None)) =
     [Erp Authenticate, OpenFile ''price_list_feira.json'', Erp (ProductSearch ''x200''),
      Erp (LineCreate \<lparr> lv_order_id = 42, lv_product_id = 501, lv_product_uom_qty = 1,
                         lv_price_unit = None \<rparr>),
      Flash Msg_product_added FSuccess, Erp (OrderRead 42), Erp (LinesSearchRead 42)]"
    unfolding p2 by (simp add: od truthy_def)
  ultimately show ?thesis by simp
qed

text \<open>
  The quantity of a created line is 1 when the quantity field is absent and the
  integer that \<open>int\<close> reads from the field when it is present; a field that \<open>int\<close>
  rejects makes the handler raise \<open>ValueError\<close> right after the authentication,
  before any product lookup or line creation.
\<close>

lemma quantity_of_created_line:
  "(\<forall>lv. Erp (LineCreate lv) \<in> set (snd (presupuesto_details env pid method form))
          \<and> form ''product_qty'' = None \<longrightarrow> lv_product_uom_qty lv = 1)
   \<and> (\<forall>lv s. Erp (LineCreate lv) \<in> set (snd (presupuesto_details env pid method form))
          \<and> form ''product_qty'' = Some s \<longrightarrow> py_int s = Some (lv_product_uom_qty lv))"
proof (intro conjI allI impI)
  fix lv
  assume "Erp (LineCreate lv) \<in> set (snd (presupuesto_details env pid method form))
          \<and> form ''product_qty'' = None"
  then show "lv_product_uom_qty lv = 1"
    using line_created_shape [of lv env pid "method" "form"] by (auto simp: product_qty_of_cases)
next
  fix lv s
  assume "Erp (LineCreate lv) \<in> set (snd (presupuesto_details env pid method form))
          \<and> form ''product_qty'' = Some s"
  then show "py_int s = Some (lv_product_uom_qty lv)"
    using line_created_shape [of lv env pid "method" "form"] by (auto simp: product_qty_of_cases)
qed

lemma quantity_rejected_raises:
  assumes "pd_auth env = Inr uid" and "truthy uid"
      and "form ''product_qty'' = Some s" and "py_int s = None"
  shows "presupuesto_details env pid POST form = (Inl ValueError, [Erp Authenticate])"
  using assms
  by (simp add: presupuesto_details_def add_line_def product_qty_of_def run_defs Let_def)

text \<open>
  Claim C7 asks that the quantity defaults to 1 whenever the quantity field is
  absent or not numeric, and that the handler never faults on a malformed
  quantity. The default is applied for an absent field
  (\<open>quantity_of_created_line\<close>). For a field that is present and not an integer
  literal, the conversion raises and nothing catches it
  (\<open>quantity_rejected_raises\<close>): with the quantity \<open>abc\<close>, and with the empty
  quantity, the handler raises \<open>ValueError\<close> right after the authentication, and
  no line with quantity 1 is created.
\<close>

theorem presupuesto_details_quantity_not_numeric:
  "form_line ''P100'' (Some ''abc'') ''product_qty'' = Some ''abc''
   \<and> presupuesto_details env_catalog 42 POST (form_line ''P100'' (Some ''abc'')) =
       (Inl ValueError, [Erp Authenticate])
   \<and> form_line ''P100'' (Some []) ''product_qty'' = Some []
   \<and> presupuesto_details env_catalog 42 POST (form_line ''P100'' (Some [])) =
       (Inl ValueError, [Erp Authenticate])"
proof -
  have a: "pd_auth env_catalog = Inr (Some 2)" "truthy (Some 2)"
    by (simp_all add: env_catalog_def truthy_def)
  have b: "form_line ''P100'' (Some s) ''product_qty'' = Some s" for s
    by (simp add: form_line_def)
  show ?thesis
    using quantity_rejected_raises
            [of env_catalog "Some 2" "form_line ''P100'' (Some ''abc'')" "''abc''" 42,
             OF a b py_int_examples(2)]
          quantity_rejected_raises
            [of env_catalog "Some 2" "form_line ''P100'' (Some [])" "[]" 42,
             OF a b py_int_examples(3)] b
    by simp
qed

section \<open>Properties of \<open>create_presupuesto\<close>\<close>

text \<open>
  The fiscal position: domestic for the country code \<open>ES\<close>; for any other code,
  once the SOAP client is built, intracommunity for a valid answer, and domestic
  with a warning to the user for an invalid answer or a failing \<open>checkVat\<close> call.
\<close>

lemma fiscal_position_domestic:
  "upper (take 2 vat) = ''ES'' \<Longrightarrow> fiscal_position env vat = (Inr 1, [])"
  by (simp add: fiscal_position_def Let_def ret_def)

lemma fiscal_position_lookup:
  assumes "upper (take 2 vat) \<noteq> ''ES''" and "cp_client env = Inr ()"
  shows "fiscal_position env vat =
     (case cp_check_vat env of
        Inr valid \<Rightarrow>
          if valid then (Inr 4, [Vies ClientInit, Vies (CheckVat (upper (take 2 vat)) (drop 2 vat))])
          else (Inr 1, [Vies ClientInit, Vies (CheckVat (upper (take 2 vat)) (drop 2 vat)),
                        Flash Msg_vat_invalid_national FWarning])
      | Inl e \<Rightarrow>
          (Inr 1, [Vies ClientInit, Vies (CheckVat (upper (take 2 vat)) (drop 2 vat)),
                   Log WARNING (Log_vies_error e), Flash Msg_vat_lookup_error_national FWarning]))"
  using assms by (cases "cp_check_vat env") (simp_all add: fiscal_position_def Let_def run_defs)

lemma fiscal_position_client_raises:
  assumes "upper (take 2 vat) \<noteq> ''ES''" and "cp_client env = Inl e"
  shows "fiscal_position env vat = (Inl e, [Vies ClientInit])"
  using assms by (simp add: fiscal_position_def Let_def run_defs)

lemma create_presupuesto_client_raises:
  assumes "3 \<le> length vat" and "upper (take 2 vat) \<noteq> ''ES''" and "cp_client env = Inl e"
  shows "create_presupuesto cfg env partner (Some vat) = (Inl e, [Vies ClientInit])"
proof -
  from assms(1) have "vat \<noteq> []" "\<not> length vat < 3" by auto
  then show ?thesis
    by (simp add: create_presupuesto_def fiscal_position_client_raises [OF assms(2,3)] bind_Inl)
qed

text \<open>A run where only the \<open>checkVat\<close> call fails: domestic position, warning, order created.\<close>

lemma create_presupuesto_check_vat_fails:
  "create_presupuesto default_config env_vies_call_fails (Some 5) (Some ''PT123456789'') =
     (Inr (Redirect (PresupuestoDetails 42)),
      [Vies ClientInit, Vies (CheckVat ''PT'' ''123456789''),
       Log WARNING (Log_vies_error TransportError),
       Flash Msg_vat_lookup_error_national FWarning,
       Erp Authenticate,
       Erp (OrderCreate \<lparr> ov_partner_id = Some 5, ov_pricelist_id = 48, ov_fiscal_position_id = 1,
                          ov_client_order_ref = ''Expodental 2026'', ov_team_id = 22 \<rparr>),
       Flash Msg_quotation_created FSuccess])"
proof -
  have a: "upper (take 2 ''PT123456789'') = ''PT''" by code_simp
  have b: "upper (take 2 ''PT123456789'') \<noteq> ''ES''" unfolding a by simp
  have c: "cp_client env_vies_call_fails = Inr ()" by (simp add: env_vies_call_fails_def)
  have f: "fiscal_position env_vies_call_fails ''PT123456789'' =
             (Inr 1, [Vies ClientInit, Vies (CheckVat ''PT'' ''123456789''),
                      Log WARNING (Log_vies_error TransportError),
                      Flash Msg_vat_lookup_error_national FWarning])"
    unfolding fiscal_position_lookup [OF b c] a by (simp add: env_vies_call_fails_def)
  show ?thesis
    by (simp add: create_presupuesto_def f bind_Inr)
       (simp add: env_vies_call_fails_def default_config_def truthy_def run_defs)
qed

text \<open>
  Claim C5 asks that any failure of the VAT lookup, a transport exception
  included, yields the domestic fiscal position and a warning, never an
  unhandled fault. This holds for the \<open>checkVat\<close> call
  (\<open>fiscal_position_lookup\<close>). It does not hold for the construction of the SOAP
  client, which fetches the service description and is outside the \<open>try\<close>
  block: for a Portuguese VAT number and an unreachable service the handler
  raises, with no warning and no order created.
\<close>

theorem create_presupuesto_vies_unreachable:
  "3 \<le> length ''PT123456789'' \<and> upper (take 2 ''PT123456789'') \<noteq> ''ES''
   \<and> create_presupuesto default_config env_vies_unreachable (Some 5) (Some ''PT123456789'') =
       (Inl TransportError, [Vies ClientInit])"
proof -
  have a: "upper (take 2 ''PT123456789'') = ''PT''" by code_simp
  have b: "cp_client env_vies_unreachable = Inl TransportError" by (simp add: env_vies_unreachable_def)
  have c: "upper (take 2 ''PT123456789'') \<noteq> ''ES''" unfolding a by simp
  have d: "3 \<le> length ''PT123456789''" by simp
  show ?thesis using create_presupuesto_client_raises [OF d c b] c d by blast
qed


end
